theory Spec2Isabelle
  imports Main "HOL-Library.Word"
begin

section \<open>Shared data model of the mirror engines\<close>

text \<open>
  The repository holds three generations of the mirror command: the session engine
  (\<^verbatim>\<open>mirror-main.go\<close>, package main), the work item generator
  (\<^verbatim>\<open>deltaSourceTargets\<close> and \<^verbatim>\<open>isEmpty\<close>) and the watch-capable engine
  (\<^verbatim>\<open>cmd/mirror-main.go\<close>). Each function below is translated from the Go text of
  its own file. Whatever a function calls outside these files (the storage client, the
  alias table, the progress display, the session file) is a field of the record
  \<open>extern\<close> or an entry of the effect log a function returns.
\<close>

type_synonym int64 = "64 word"

text \<open>Go run-time panics that the modelled code can raise.\<close>

datatype panic = NilDereference | TypeAssertionFailed | IndexOutOfRange

text \<open>
  The dynamic type of the Go error inside a \<^verbatim>\<open>*probe.Error\<close>, as far as the code
  switches on it, and the text its \<^verbatim>\<open>Error()\<close> method prints.
\<close>

datatype goErrorType = net_OpError | net_Error | APINotImplemented | otherError

record probe_Error =
  errType :: goErrorType
  errText :: string

text \<open>
  \<^verbatim>\<open>clientURL\<close>: the fields the engines read, and the text \<^verbatim>\<open>String()\<close> prints.
\<close>

record clientURL =
  Path :: string
  Separator :: string
  URL_String :: string

record clientContent =
  URL :: clientURL
  Size :: int64

text \<open>
  \<^verbatim>\<open>mirrorURLs\<close> (generator) and \<^verbatim>\<open>URLs\<close> (watch engine) are one struct; the watch
  engine adds the two running totals, which a composite literal of the generator leaves
  at Go's zero value. A nil pointer is \<open>None\<close>.
\<close>

record mirrorURLs =
  SourceAlias :: string
  SourceContent :: "clientContent option"
  TargetAlias :: string
  TargetContent :: "clientContent option"
  TotalCount :: int64
  TotalSize :: int64
  Error :: "probe_Error option"

text \<open>The composite literal \<^verbatim>\<open>mirrorURLs{}\<close>: every field at its zero value.\<close>

definition mirrorURLs_zero :: mirrorURLs where
  "mirrorURLs_zero =
     \<lparr>SourceAlias = [], SourceContent = None, TargetAlias = [], TargetContent = None,
      TotalCount = 0, TotalSize = 0, Error = None\<rparr>"

subsection \<open>The differencer's output\<close>

text \<open>
  Modelled from the spec: the declaration of the differencer's classification and of the
  entry it sends is not among the sources; the generator names five of the six values
  and the fields it reads. The closed enumeration of the specification is: only in
  source (\<open>differInFirst\<close>), only in target (\<open>differInSecond\<close>), differs in type,
  differs in size, differs in time only, identical (\<open>differInNone\<close>).
\<close>

datatype differType =
    differInNone
  | differInSize
  | differInTime
  | differInType
  | differInFirst
  | differInSecond

record diffMessage =
  err :: "probe_Error option"
  dType :: differType
  sourceURL :: string
  targetURL :: string
  sourceContent :: "clientContent option"
  targetContent :: "clientContent option"

subsection \<open>The session engine's data\<close>

text \<open>
  The session engine's \<^verbatim>\<open>mirrorURLs\<close> has one source and a list of targets, and its
  contents carry a \<^verbatim>\<open>Name\<close>. Its fields are suffixed here, since the generator's struct
  of the same name is above.
\<close>

record Content =
  Name :: string
  Size1 :: int64

record mirrorURLs1 =
  SourceContent1 :: "Content option"
  TargetContents1 :: "Content list"
  Error1 :: "probe_Error option"

text \<open>The process-wide switches the session engine reads.\<close>

record globals =
  globalQuietFlag :: bool
  globalJSONFlag :: bool
  globalDebugFlag :: bool

text \<open>The dynamic type of the value held by \<^verbatim>\<open>progressReader interface{}\<close>.\<close>

datatype progressReader = barSend | accounter

subsection \<open>Functions of other files and packages\<close>

record extern =
  newURL :: "string \<Rightarrow> clientURL"
  mustExpandAlias :: "string \<Rightarrow> string \<times> string"
  newClientFromAlias :: "string \<Rightarrow> string \<Rightarrow> probe_Error option"
  differenceCh :: "string \<times> string \<Rightarrow> string \<times> string \<Rightarrow> diffMessage list"
  urlJoinPath :: "string \<Rightarrow> string \<Rightarrow> string"
  errInvalidTarget :: "string \<Rightarrow> probe_Error"
  errOverWriteNotAllowed :: "string \<Rightarrow> probe_Error"
  newClientURL :: "string \<Rightarrow> clientURL"
  newClient :: "string \<Rightarrow> probe_Error option"
  client_Stat :: "string \<Rightarrow> probe_Error + clientContent"
  removeSingle :: "string \<Rightarrow> probe_Error option"
  uploadSourceToTargetURL :: "mirrorURLs \<Rightarrow> mirrorURLs"
  filepath_Abs :: "string \<Rightarrow> string option"
  filepath_Join :: "string \<Rightarrow> string \<Rightarrow> string"
  filepath_ToSlash :: "string \<Rightarrow> string"
  strings_Replace :: "string \<Rightarrow> string \<Rightarrow> string \<Rightarrow> string"
  getSource :: "string \<Rightarrow> int64 \<times> probe_Error option"
  putTargets :: "string list \<Rightarrow> int64 \<Rightarrow> probe_Error option"
  isEmpty1 :: "mirrorURLs1 \<Rightarrow> panic + bool"
  json_Marshal :: "mirrorURLs1 \<Rightarrow> probe_Error + string"
  json_Unmarshal :: "string \<Rightarrow> mirrorURLs1"

text \<open>\<^verbatim>\<open>strings.HasSuffix\<close>, \<^verbatim>\<open>strings.HasPrefix\<close> and \<^verbatim>\<open>strings.TrimPrefix\<close>.\<close>

definition HasSuffix :: "string \<Rightarrow> string \<Rightarrow> bool" where
  "HasSuffix s suffix =
     (length suffix \<le> length s \<and> drop (length s - length suffix) s = suffix)"

definition HasPrefix :: "string \<Rightarrow> string \<Rightarrow> bool" where
  "HasPrefix s prefix = (length prefix \<le> length s \<and> take (length prefix) s = prefix)"

definition TrimPrefix :: "string \<Rightarrow> string \<Rightarrow> string" where
  "TrimPrefix s prefix = (if HasPrefix s prefix then drop (length prefix) s else s)"

section \<open>The work item generator\<close>

text \<open>
  \<^verbatim>\<open>isEmpty\<close>. Go evaluates \<^verbatim>\<open>&&\<close> from the left and stops at the first false
  operand, so the second test reads \<^verbatim>\<open>m.SourceContent.Size\<close> before anything else:
  with a nil \<^verbatim>\<open>SourceContent\<close> that read panics.
\<close>

definition isEmpty :: "mirrorURLs \<Rightarrow> panic + bool" where
  "isEmpty m =
     (if SourceContent m = None \<and> TargetContent m = None \<and> Error m = None then Inr True
      else case SourceContent m of
             None \<Rightarrow> Inl NilDereference
           | Some sc \<Rightarrow>
               if Size sc = 0 \<and> TargetContent m = None \<and> Error m = None then Inr True
               else Inr False)"

text \<open>
  One round of the loop of \<^verbatim>\<open>deltaSourceTargets\<close> over the differencer's entries:
  the items it sends on \<^verbatim>\<open>mirrorURLsCh\<close> for the entry \<open>d\<close> (none when the round
  ends in \<^verbatim>\<open>continue\<close> without a send), or the panic that ends the goroutine.
  \<open>sourceURL\<close> and \<open>targetURL\<close> are the expanded URLs, the aliases those of
  \<^verbatim>\<open>mustExpandAlias\<close>. In Go \<^verbatim>\<open>&&\<close> binds tighter than \<^verbatim>\<open>||\<close>: the first test is
  \<^verbatim>\<open>(isRemove && isForce && differ == differInTime) || differ == differInSize\<close>.
  \<^verbatim>\<open>Trace\<close> appends a call site inside the error object and returns its receiver, so the
  item holds the pointer it was given.
\<close>

definition deltaEntry ::
  "extern \<Rightarrow> string \<Rightarrow> string \<Rightarrow> string \<Rightarrow> string \<Rightarrow> bool \<Rightarrow> bool \<Rightarrow> bool \<Rightarrow>
   diffMessage \<Rightarrow> panic + mirrorURLs list" where
  "deltaEntry ext sourceAlias sourceURL' targetAlias targetURL' isForce isFake isRemove d =
     (case err d of
        Some e \<Rightarrow> Inr [mirrorURLs_zero\<lparr>Error := Some e\<rparr>]
      | None \<Rightarrow>
          let differ = dType d in
          if (isRemove \<and> isForce \<and> differ = differInTime) \<or> differ = differInSize then Inr []
          else if isRemove \<and> isForce \<and> differ = differInSecond then Inr []
          else if differ = differInNone \<or> differ = differInSecond then Inr []
          else if differ = differInType then
            Inr [mirrorURLs_zero\<lparr>Error := Some (errInvalidTarget ext (targetURL d))\<rparr>]
          else if differ = differInSize \<and> \<not> isForce \<and> \<not> isFake then
            Inr [mirrorURLs_zero\<lparr>Error := Some (errOverWriteNotAllowed ext (sourceURL d))\<rparr>]
          else
            (case sourceContent d of
               None \<Rightarrow> Inl NilDereference
             | Some sc \<Rightarrow>
                 let sourceSuffix = TrimPrefix (URL_String (URL sc)) sourceURL';
                     tc = \<lparr>URL = newURL ext (urlJoinPath ext targetURL' sourceSuffix), Size = 0\<rparr>
                 in Inr [mirrorURLs_zero\<lparr>SourceAlias := sourceAlias, SourceContent := Some sc,
                           TargetAlias := targetAlias, TargetContent := Some tc\<rparr>]))"

text \<open>The \<^verbatim>\<open>for d := range differenceCh(...)\<close> loop: a panic ends it.\<close>

fun deltaLoop ::
  "extern \<Rightarrow> string \<Rightarrow> string \<Rightarrow> string \<Rightarrow> string \<Rightarrow> bool \<Rightarrow> bool \<Rightarrow> bool \<Rightarrow>
   diffMessage list \<Rightarrow> mirrorURLs list \<times> panic option" where
  "deltaLoop ext sa su ta tu isForce isFake isRemove [] = ([], None)"
| "deltaLoop ext sa su ta tu isForce isFake isRemove (d # ds) =
     (case deltaEntry ext sa su ta tu isForce isFake isRemove d of
        Inl p \<Rightarrow> ([], Some p)
      | Inr out \<Rightarrow>
          (let (rest, p) = deltaLoop ext sa su ta tu isForce isFake isRemove ds
           in (out @ rest, p)))"

text \<open>
  \<^verbatim>\<open>deltaSourceTargets\<close>: everything sent on \<^verbatim>\<open>mirrorURLsCh\<close> before the deferred
  \<^verbatim>\<open>close\<close>, and the panic, if any.
\<close>

definition deltaSourceTargets ::
  "extern \<Rightarrow> string \<Rightarrow> string \<Rightarrow> bool \<Rightarrow> bool \<Rightarrow> bool \<Rightarrow> mirrorURLs list \<times> panic option" where
  "deltaSourceTargets ext sourceURL0 targetURL0 isForce isFake isRemove =
     (let sourceSeparator = Separator (newURL ext sourceURL0);
          sourceURL1 = (if \<not> HasSuffix sourceURL0 sourceSeparator
                        then sourceURL0 @ sourceSeparator else sourceURL0);
          targetSeparator = Separator (newURL ext targetURL0);
          targetURL1 = (if \<not> HasSuffix targetURL0 targetSeparator
                        then targetURL0 @ targetSeparator else targetURL0);
          (sourceAlias, sourceURL2) = mustExpandAlias ext sourceURL1;
          (targetAlias, targetURL2) = mustExpandAlias ext targetURL1
      in case newClientFromAlias ext sourceAlias sourceURL2 of
           Some e \<Rightarrow> ([mirrorURLs_zero\<lparr>Error := Some e\<rparr>], None)
         | None \<Rightarrow>
             (case newClientFromAlias ext targetAlias targetURL2 of
                Some e \<Rightarrow> ([mirrorURLs_zero\<lparr>Error := Some e\<rparr>], None)
              | None \<Rightarrow>
                  deltaLoop ext sourceAlias sourceURL2 targetAlias targetURL2
                    isForce isFake isRemove
                    (differenceCh ext (sourceAlias, sourceURL2) (targetAlias, targetURL2))))"

section \<open>Effects and runs\<close>

text \<open>
  What the engines do to the outside world is kept as a log, oldest entry first. A call
  whose answer the code uses takes the answer from \<open>extern\<close>; the log keeps the call.
  \<^verbatim>\<open>Trace\<close> on an error writes a call site into the error object and returns the same
  pointer: the log keeps the call, the item keeps the error it had.
\<close>

datatype errorMsg =
    FailedToCopy string
  | FailedToRemove string
  | FolderCannotBeCopied
  | UnableToPrepareURLForCopying
  | UnexpectedErrorDuringMonitoring
  | UnableToPrepareURLsForMirroring
  | FailedToMirror string
  | UnableToMarshalURLsIntoJSON

datatype message =
    mirrorMessage string string int64 int64 int64
  | rmMessage string
  | MirrorMessage string "string list"

datatype effect =
    Trace probe_Error "string list"
  | errorIf probe_Error errorMsg
  | status_errorIf probe_Error errorMsg
  | Send_statusCh mirrorURLs
  | Call_newClient string
  | Call_Stat string
  | Call_removeSingle string
  | Call_uploadSourceToTargetURL mirrorURLs
  | status_Add int64
  | status_SetCaption string
  | status_PrintMsg message
  | status_SetTotal int64
  | os_Exit
  | fatalIf probe_Error errorMsg
  | console_Eraseline
  | updateBar string
  | Prints message
  | bar_SetCaption string
  | bar_ErrorGet int64
  | bar_ErrorPut int64
  | bar_Progress int64
  | bar_Finish
  | accounter_Finish
  | Call_getSource string
  | Call_putTargets "string list" int64
  | reader_Close
  | Send_statusCh1 mirrorURLs1
  | Send_mirrorQueue
  | Recv_mirrorQueueCh
  | wg_Done
  | Go_doMirror mirrorURLs1

text \<open>A run: the effects so far, then the value returned or the panic that ended it.\<close>

type_synonym 'a run = "effect list \<times> (panic + 'a)"

definition andThen :: "'a run \<Rightarrow> ('a \<Rightarrow> 'b run) \<Rightarrow> 'b run" where
  "andThen m f =
     (case m of
        (es, Inl p) \<Rightarrow> (es, Inl p)
      | (es, Inr x) \<Rightarrow> (case f x of (es', r) \<Rightarrow> (es @ es', r)))"

text \<open>\<open>after es m\<close>: the run \<open>m\<close> once the effects \<open>es\<close> have happened.\<close>

definition after :: "effect list \<Rightarrow> 'a run \<Rightarrow> 'a run" where
  "after es m = (es @ fst m, snd m)"

text \<open>
  Modelled from the spec: \<^verbatim>\<open>WithError\<close>, a method of \<^verbatim>\<open>URLs\<close>, is declared with the
  type and not among the sources. A work item is never mutated after being queued
  except to attach an error: the result is the receiver with its \<^verbatim>\<open>Error\<close> field set.
\<close>

definition WithError :: "mirrorURLs \<Rightarrow> probe_Error option \<Rightarrow> mirrorURLs" where
  "WithError m e = m\<lparr>Error := e\<rparr>"

section \<open>The watch-capable engine\<close>

subsection \<open>The job\<close>

text \<open>
  The fields of \<^verbatim>\<open>mirrorJob\<close> the loops read and write; \<open>ctx_force\<close> is
  \<^verbatim>\<open>mj.context.Bool("force")\<close> and so on, \<open>status_Total\<close> what \<^verbatim>\<open>mj.status.Total()\<close>
  returns.
\<close>

record mirrorJob =
  ctx_force :: bool
  ctx_fake :: bool
  ctx_remove :: bool
  watcherRunning :: bool
  status_Total :: int64
  TotalObjects :: int64
  TotalBytes :: int64
  mj_sourceURL :: string
  mj_targetURL :: string

text \<open>\<^verbatim>\<open>doRemove\<close>: removes a file on the target.\<close>

definition doRemove :: "extern \<Rightarrow> mirrorJob \<Rightarrow> mirrorURLs \<Rightarrow> mirrorURLs run" where
  "doRemove ext mj sURLs =
     (let isFake = ctx_fake mj in
      if isFake then ([], Inr (WithError sURLs None))
      else
        (case TargetContent sURLs of
           None \<Rightarrow> ([], Inl NilDereference)
         | Some tc \<Rightarrow>
             let targetWithAlias = filepath_Join ext (TargetAlias sURLs) (Path (URL tc));
                 e = removeSingle ext targetWithAlias
             in ([Call_removeSingle targetWithAlias], Inr (WithError sURLs e))))"

text \<open>\<^verbatim>\<open>doMirror\<close>: mirrors one object; the item returned goes to the status channel.\<close>

definition doMirror :: "extern \<Rightarrow> mirrorJob \<Rightarrow> mirrorURLs \<Rightarrow> mirrorURLs run" where
  "doMirror ext mj sURLs =
     (let isFake = ctx_fake mj in
      case Error sURLs of
        Some e \<Rightarrow> ([Trace e []], Inr (WithError sURLs (Some e)))
      | None \<Rightarrow>
          if isFake then
            (case SourceContent sURLs of
               None \<Rightarrow> ([], Inl NilDereference)
             | Some sc \<Rightarrow> ([status_Add (Size sc)], Inr (WithError sURLs None)))
          else
            (case SourceContent sURLs of
               None \<Rightarrow> ([], Inl NilDereference)
             | Some sc \<Rightarrow>
                 (case TargetContent sURLs of
                    None \<Rightarrow> ([], Inl NilDereference)
                  | Some tc \<Rightarrow>
                      let sourceAlias = SourceAlias sURLs;
                          sourceURL = URL sc;
                          targetAlias = TargetAlias sURLs;
                          targetURL = URL tc;
                          length' = Size sc;
                          sourcePath = filepath_ToSlash ext
                                         (filepath_Join ext sourceAlias (Path sourceURL));
                          targetPath = filepath_ToSlash ext
                                         (filepath_Join ext targetAlias (Path targetURL))
                      in ([status_SetCaption (URL_String sourceURL @ '': ''),
                           status_PrintMsg (mirrorMessage sourcePath targetPath length'
                              (TotalCount sURLs) (TotalSize sURLs)),
                           Call_uploadSourceToTargetURL sURLs],
                          Inr (uploadSourceToTargetURL ext sURLs)))))"

text \<open>
  \<^verbatim>\<open>startStatus\<close>: what the status goroutine does with one item it receives from
  \<^verbatim>\<open>mj.statusCh\<close>.
\<close>

definition statusReceive :: "extern \<Rightarrow> mirrorURLs \<Rightarrow> unit run" where
  "statusReceive ext sURLs =
     andThen
       (case Error sURLs of
          None \<Rightarrow> ([], Inr ())
        | Some e \<Rightarrow>
            (case SourceContent sURLs of
               Some sc \<Rightarrow>
                 ([Trace e [URL_String (URL sc)],
                   errorIf e (FailedToCopy (URL_String (URL sc)))], Inr ())
             | None \<Rightarrow>
                 (case TargetContent sURLs of
                    None \<Rightarrow> ([], Inl NilDereference)
                  | Some tc \<Rightarrow>
                      ([Trace e [URL_String (URL tc)],
                        errorIf e (FailedToRemove (URL_String (URL tc)))], Inr ()))))
       (\<lambda>_. case SourceContent sURLs of
               Some sc \<Rightarrow> ([], Inr ())
             | None \<Rightarrow>
                 (case TargetContent sURLs of
                    Some tc \<Rightarrow>
                      let targetPath = filepath_ToSlash ext
                                         (filepath_Join ext (TargetAlias sURLs) (Path (URL tc)))
                      in ([status_PrintMsg (rmMessage targetPath)], Inr ())
                  | None \<Rightarrow> ([], Inr ())))"

subsection \<open>The watcher\<close>

text \<open>
  Modelled from the spec: the watcher's event type is declared in a file that is not
  among the sources; an event is a create or a remove, with a path and, for a create,
  the size the notification reports (0 when it has to be confirmed by a stat).
\<close>

datatype EventType = EventCreate | EventRemove

record Event =
  Event_Type :: EventType
  Event_Path :: string
  Event_Size :: int64

text \<open>How one round of a \<^verbatim>\<open>for { select { ... } }\<close> loop ends.\<close>

datatype control = Continue | Return

text \<open>
  The common tail of both create branches: totals copied into the item, the display
  total raised by \<open>n\<close>, the result of \<^verbatim>\<open>doMirror\<close> sent to the status channel.
\<close>

definition queueMirror ::
  "extern \<Rightarrow> mirrorJob \<Rightarrow> mirrorURLs \<Rightarrow> int64 \<Rightarrow> (mirrorJob \<times> control) run" where
  "queueMirror ext mj mirrorURL n =
     (let mirrorURL1 = mirrorURL\<lparr>TotalCount := TotalObjects mj, TotalSize := TotalBytes mj\<rparr>;
          mj1 = mj\<lparr>status_Total := status_Total mj + n\<rparr>
      in after [status_SetTotal (status_Total mj + n)]
           (andThen (doMirror ext mj1 mirrorURL1)
              (\<lambda>r. ([Send_statusCh r], Inr (mj1, Continue)))))"

text \<open>
  The names \<^verbatim>\<open>watchMirror\<close> computes from an event before it looks at the event's
  type: \<^verbatim>\<open>sourceAlias\<close>, \<^verbatim>\<open>sourceURL\<close>, \<^verbatim>\<open>aliasedPath\<close>, \<^verbatim>\<open>targetPath\<close>,
  \<^verbatim>\<open>targetAlias\<close> and \<^verbatim>\<open>targetURL\<close>.
\<close>

definition watchPaths ::
  "extern \<Rightarrow> mirrorJob \<Rightarrow> Event \<Rightarrow> string \<times> clientURL \<times> string \<times> string \<times> string \<times> clientURL" where
  "watchPaths ext mj event =
     (let (sourceAlias, sourceURLFull0) = mustExpandAlias ext (mj_sourceURL mj);
          sourceURLFull =
            (if sourceAlias = []
             then (case filepath_Abs ext sourceURLFull0 of
                     Some tmpSrcURL \<Rightarrow> tmpSrcURL
                   | None \<Rightarrow> sourceURLFull0)
             else sourceURLFull0);
          sourceURL = newClientURL ext (Event_Path event);
          aliasedPath = strings_Replace ext (Event_Path event) sourceURLFull (mj_sourceURL mj);
          sourceSuffix = TrimPrefix (Event_Path event) sourceURLFull;
          targetPath = urlJoinPath ext (mj_targetURL mj) sourceSuffix;
          (targetAlias, expandedTargetPath) = mustExpandAlias ext targetPath;
          targetURL = newClientURL ext expandedTargetPath
      in (sourceAlias, sourceURL, aliasedPath, targetPath, targetAlias, targetURL))"

text \<open>
  \<^verbatim>\<open>watchMirror\<close>, the case \<^verbatim>\<open>event, ok := <-mj.watcher.Events()\<close> with \<^verbatim>\<open>ok\<close> true.
\<close>

definition watchEvent :: "extern \<Rightarrow> mirrorJob \<Rightarrow> Event \<Rightarrow> (mirrorJob \<times> control) run" where
  "watchEvent ext mj event =
     (let isForce = ctx_force mj;
          isRemove = ctx_remove mj;
          (sourceAlias, sourceURL, aliasedPath, targetPath, targetAlias, targetURL) =
            watchPaths ext mj event
      in case Event_Type event of
           EventCreate \<Rightarrow>
             (let mirrorURL = mirrorURLs_zero
                    \<lparr>SourceAlias := sourceAlias,
                     SourceContent := Some \<lparr>URL = sourceURL, Size = 0\<rparr>,
                     TargetAlias := targetAlias,
                     TargetContent := Some \<lparr>URL = targetURL, Size = 0\<rparr>\<rparr>
              in if Event_Size event = 0 then
                   after [Call_newClient aliasedPath]
                     (case newClient ext aliasedPath of
                        Some e \<Rightarrow>
                          ([Send_statusCh (WithError mirrorURL (Some e))], Inr (mj, Continue))
                      | None \<Rightarrow>
                          after [Call_Stat aliasedPath]
                            (case client_Stat ext aliasedPath of
                               Inl e \<Rightarrow>
                                 ([Send_statusCh (WithError mirrorURL (Some e))],
                                  Inr (mj, Continue))
                             | Inr srcContent \<Rightarrow>
                                 after [Call_newClient targetPath]
                                   (case newClient ext targetPath of
                                      Some e \<Rightarrow>
                                        ([Send_statusCh (WithError mirrorURL (Some e))],
                                         Inr (mj, Return))
                                    | None \<Rightarrow>
                                        if \<not> isForce then
                                          after [Call_Stat targetPath]
                                            (case client_Stat ext targetPath of
                                               Inr _ \<Rightarrow> ([], Inr (mj, Continue))
                                             | Inl _ \<Rightarrow>
                                                 (let shouldQueue = True in
                                                  if shouldQueue \<or> isForce
                                                  then queueMirror ext mj mirrorURL
                                                         (Size srcContent)
                                                  else ([], Inr (mj, Continue))))
                                        else
                                          (let shouldQueue = False in
                                           if shouldQueue \<or> isForce
                                           then queueMirror ext mj mirrorURL (Size srcContent)
                                           else ([], Inr (mj, Continue))))))
                 else
                   (let mirrorURL1 = mirrorURL
                          \<lparr>SourceContent := Some \<lparr>URL = sourceURL, Size = Event_Size event\<rparr>\<rparr>
                    in if \<not> isForce then
                         after [Call_newClient targetPath]
                           (case newClient ext targetPath of
                              Some e \<Rightarrow>
                                ([Send_statusCh (WithError mirrorURL (Some e))], Inr (mj, Return))
                            | None \<Rightarrow>
                                after [Call_Stat targetPath]
                                  (case client_Stat ext targetPath of
                                     Inr _ \<Rightarrow> ([], Inr (mj, Continue))
                                   | Inl _ \<Rightarrow>
                                       (let shouldQueue = True in
                                        if shouldQueue \<or> isForce
                                        then queueMirror ext mj mirrorURL1 (Event_Size event)
                                        else ([], Inr (mj, Continue)))))
                       else
                         (let shouldQueue = False in
                          if shouldQueue \<or> isForce
                          then queueMirror ext mj mirrorURL1 (Event_Size event)
                          else ([], Inr (mj, Continue)))))
         | EventRemove \<Rightarrow>
             (let mirrorURL = mirrorURLs_zero
                    \<lparr>SourceAlias := sourceAlias,
                     SourceContent := None,
                     TargetAlias := targetAlias,
                     TargetContent := Some \<lparr>URL = targetURL, Size = 0\<rparr>,
                     TotalCount := TotalObjects mj,
                     TotalSize := TotalBytes mj\<rparr>
              in if TargetContent mirrorURL \<noteq> None \<and> isRemove \<and> isForce then
                   andThen (doRemove ext mj mirrorURL)
                     (\<lambda>r. ([Send_statusCh r], Inr (mj, Continue)))
                 else ([], Inr (mj, Continue))))"

text \<open>What the \<^verbatim>\<open>select\<close> of \<^verbatim>\<open>watchMirror\<close> can receive.\<close>

datatype watchSelect = Recv_Events Event | Closed_Events | Recv_Errors probe_Error

definition watchSelected ::
  "extern \<Rightarrow> mirrorJob \<Rightarrow> watchSelect \<Rightarrow> (mirrorJob \<times> control) run" where
  "watchSelected ext mj sel =
     (case sel of
        Closed_Events \<Rightarrow> ([], Inr (mj, Return))
      | Recv_Events event \<Rightarrow> watchEvent ext mj event
      | Recv_Errors e \<Rightarrow>
          (if errType e = APINotImplemented
           then ([], Inr (mj\<lparr>watcherRunning := False\<rparr>, Return))
           else ([errorIf e UnexpectedErrorDuringMonitoring], Inr (mj, Continue))))"

text \<open>
  The loop of \<^verbatim>\<open>watchMirror\<close> over what its \<^verbatim>\<open>select\<close> receives, each round with
  the outside world as it is then. \<open>Continue\<close> in the result: the goroutine waits for
  the next event.
\<close>

fun watchMirror ::
  "mirrorJob \<Rightarrow> (extern \<times> watchSelect) list \<Rightarrow> (mirrorJob \<times> control) run" where
  "watchMirror mj [] = ([], Inr (mj, Continue))"
| "watchMirror mj ((ext, sel) # rest) =
     andThen (watchSelected ext mj sel)
       (\<lambda>(mj1, c). case c of
                     Return \<Rightarrow> ([], Inr (mj1, Return))
                   | Continue \<Rightarrow> watchMirror mj1 rest)"

subsection \<open>The one-shot pass\<close>

text \<open>\<^verbatim>\<open>strings.Contains\<close>.\<close>

fun Contains :: "string \<Rightarrow> string \<Rightarrow> bool" where
  "Contains [] substr = (substr = [])"
| "Contains (c # s) substr = (HasPrefix (c # s) substr \<or> Contains s substr)"

text \<open>
  \<^verbatim>\<open>startMirror\<close>, the case \<^verbatim>\<open>sURLs, ok := <-URLsCh\<close> with \<^verbatim>\<open>ok\<close> true. The state is
  the job and the two local totals.
\<close>

definition startReceive ::
  "extern \<Rightarrow> mirrorJob \<times> int64 \<times> int64 \<Rightarrow> mirrorURLs \<Rightarrow> (mirrorJob \<times> int64 \<times> int64) run" where
  "startReceive ext st sURLs =
     (case st of (mj, totalBytes, totalObjects) \<Rightarrow>
      (let isForce = ctx_force mj;
           isRemove = ctx_remove mj
       in (case Error sURLs of
           Some e \<Rightarrow>
             (if Contains (errText e) '' is a folder.''
              then ([Trace e [], status_errorIf e FolderCannotBeCopied], Inr st)
              else ([Trace e [], status_errorIf e UnableToPrepareURLForCopying], Inr st))
         | None \<Rightarrow>
             (let totalBytes1 = (case SourceContent sURLs of
                                   Some sc \<Rightarrow> totalBytes + Size sc
                                 | None \<Rightarrow> totalBytes);
                  totalObjects1 = totalObjects + 1;
                  mj1 = mj\<lparr>TotalBytes := totalBytes1, TotalObjects := totalObjects1,
                           status_Total := totalBytes1\<rparr>;
                  sURLs1 = sURLs\<lparr>TotalCount := TotalObjects mj1, TotalSize := TotalBytes mj1\<rparr>
              in after [status_SetTotal totalBytes1]
                   (if SourceContent sURLs1 \<noteq> None then
                      andThen (doMirror ext mj1 sURLs1)
                        (\<lambda>r. ([Send_statusCh r], Inr (mj1, totalBytes1, totalObjects1)))
                    else if TargetContent sURLs1 \<noteq> None \<and> isRemove \<and> isForce then
                      andThen (doRemove ext mj1 sURLs1)
                        (\<lambda>r. ([Send_statusCh r], Inr (mj1, totalBytes1, totalObjects1)))
                    else ([], Inr (mj1, totalBytes1, totalObjects1)))))))"

text \<open>
  What a \<^verbatim>\<open>select\<close> over a data channel and \<^verbatim>\<open>trapCh\<close> can receive: an item, the
  closing of the data channel, or the interrupt notification.
\<close>

datatype 'a chanSelect = Recv 'a | Closed | Trap

text \<open>
  How a loop is left: it returned, it ended the process with \<^verbatim>\<open>os.Exit\<close>, or it is
  still waiting on its channels.
\<close>

datatype ending = Returned | Exited | Waiting

fun startLoop ::
  "extern \<Rightarrow> mirrorJob \<times> int64 \<times> int64 \<Rightarrow> mirrorURLs chanSelect list \<Rightarrow>
   (mirrorJob \<times> ending) run" where
  "startLoop ext st [] = ([], Inr (fst st, Waiting))"
| "startLoop ext st (Closed # rest) = ([], Inr (fst st, Returned))"
| "startLoop ext st (Trap # rest) = ([os_Exit], Inr (fst st, Exited))"
| "startLoop ext st (Recv sURLs # rest) =
     andThen (startReceive ext st sURLs) (\<lambda>st1. startLoop ext st1 rest)"

text \<open>\<^verbatim>\<open>startMirror\<close>: the local totals start at zero.\<close>

definition startMirror ::
  "extern \<Rightarrow> mirrorJob \<Rightarrow> mirrorURLs chanSelect list \<Rightarrow> (mirrorJob \<times> ending) run" where
  "startMirror ext mj sels = startLoop ext (mj, 0, 0) sels"

section \<open>The session engine\<close>

subsection \<open>Mirroring one object\<close>

text \<open>
  The type assertions \<^verbatim>\<open>progressReader.(*barSend)\<close> and \<^verbatim>\<open>progressReader.(*accounter)\<close>:
  a single-value assertion panics when the dynamic type is another one.
\<close>

definition assert_barSend :: "progressReader \<Rightarrow> unit run" where
  "assert_barSend pr =
     (case pr of barSend \<Rightarrow> ([], Inr ()) | accounter \<Rightarrow> ([], Inl TypeAssertionFailed))"

definition assert_accounter :: "progressReader \<Rightarrow> unit run" where
  "assert_accounter pr =
     (case pr of accounter \<Rightarrow> ([], Inr ()) | barSend \<Rightarrow> ([], Inl TypeAssertionFailed))"

text \<open>
  The body of the session engine's \<^verbatim>\<open>doMirror\<close>, up to its \<^verbatim>\<open>return\<close> or panic;
  \<^verbatim>\<open>newReader.Close()\<close> is deferred once the reader exists and runs on each way out
  from there.
\<close>

definition doMirror1_body ::
  "extern \<Rightarrow> globals \<Rightarrow> mirrorURLs1 \<Rightarrow> progressReader \<Rightarrow> unit run" where
  "doMirror1_body ext g sURLs pr =
     (let bar = (\<not> globalQuietFlag g \<and> \<not> globalJSONFlag g) in
      case Error1 sURLs of
        Some e \<Rightarrow> ([Trace e [], Send_statusCh1 sURLs], Inr ())
      | None \<Rightarrow>
          andThen
            (if bar then
               andThen (assert_barSend pr)
                 (\<lambda>_. case SourceContent1 sURLs of
                         None \<Rightarrow> ([], Inl NilDereference)
                       | Some sc \<Rightarrow> ([bar_SetCaption (Name sc @ '': '')], Inr ()))
             else ([], Inr ()))
            (\<lambda>_. case SourceContent1 sURLs of
                    None \<Rightarrow> ([], Inl NilDereference)
                  | Some sc \<Rightarrow>
                      after [Call_getSource (Name sc)]
                        (case getSource ext (Name sc) of
                           (length', Some e) \<Rightarrow>
                             andThen
                               (if bar then
                                  andThen (assert_barSend pr)
                                    (\<lambda>_. ([bar_ErrorGet length'], Inr ()))
                                else ([], Inr ()))
                               (\<lambda>_. ([Trace e [Name sc],
                                       Send_statusCh1 (sURLs\<lparr>Error1 := Some e\<rparr>)], Inr ()))
                         | (length', None) \<Rightarrow>
                             (let targetURLs = map Name (TargetContents1 sURLs) in
                              andThen
                                (if globalQuietFlag g \<or> globalJSONFlag g then
                                   after [Prints (MirrorMessage (Name sc) targetURLs)]
                                     (assert_accounter pr)
                                 else assert_barSend pr)
                                (\<lambda>_. let r =
                                         after [Call_putTargets targetURLs length']
                                           (case putTargets ext targetURLs length' of
                                              Some e \<Rightarrow>
                                                andThen
                                                  (if bar then
                                                     andThen (assert_barSend pr)
                                                       (\<lambda>_. ([bar_ErrorPut length'], Inr ()))
                                                   else ([], Inr ()))
                                                  (\<lambda>_. ([Trace e targetURLs,
                                                          Send_statusCh1
                                                            (sURLs\<lparr>Error1 := Some e\<rparr>)],
                                                         Inr ()))
                                            | None \<Rightarrow>
                                                ([Send_statusCh1 (sURLs\<lparr>Error1 := None\<rparr>)],
                                                 Inr ()))
                                       in (fst r @ [reader_Close], snd r))))))"

text \<open>
  \<^verbatim>\<open>doMirror\<close> of the session engine: the two functions deferred at its start run when
  the body is left, by \<^verbatim>\<open>return\<close> or by a panic, the later one first: the slot of the
  queue is given back, then the wait group is told.
\<close>

definition doMirror1 ::
  "extern \<Rightarrow> globals \<Rightarrow> mirrorURLs1 \<Rightarrow> progressReader \<Rightarrow> unit run" where
  "doMirror1 ext g sURLs pr =
     (let r = doMirror1_body ext g sURLs pr
      in (fst r @ [Recv_mirrorQueueCh, wg_Done], snd r))"

text \<open>\<^verbatim>\<open>doMirrorFake\<close>: a fake mirror that only moves the progress bar.\<close>

definition doMirrorFake :: "globals \<Rightarrow> mirrorURLs1 \<Rightarrow> progressReader \<Rightarrow> unit run" where
  "doMirrorFake g sURLs pr =
     (if \<not> globalDebugFlag g \<and> \<not> globalJSONFlag g then
        andThen (assert_barSend pr)
          (\<lambda>_. case SourceContent1 sURLs of
                  None \<Rightarrow> ([], Inl NilDereference)
                | Some sc \<Rightarrow> ([bar_Progress (Size1 sc)], Inr ()))
      else ([], Inr ()))"

text \<open>
  The progress reader \<^verbatim>\<open>doMirrorSession\<close> sets up: a progress bar unless the quiet or
  the JSON switch is on, an accounter otherwise.
\<close>

definition newProgressReader :: "globals \<Rightarrow> progressReader" where
  "newProgressReader g =
     (if \<not> globalQuietFlag g \<and> \<not> globalJSONFlag g then barSend else accounter)"

subsection \<open>The session\<close>

text \<open>
  The header of \<^verbatim>\<open>sessionV2\<close> as the engine uses it, the header last written to the
  session file (\<open>None\<close>: no session is stored) and the lines of the session's data file.
\<close>

record sessionHeader =
  CommandArgs :: "string list"
  LastCopied :: string
  Header_TotalBytes :: int64
  Header_TotalObjects :: int64

record sessionV2 =
  Header :: sessionHeader
  sessionFile :: "sessionHeader option"
  dataFile :: "string list"

text \<open>
  Modelled from the spec: the methods of \<^verbatim>\<open>sessionV2\<close> and \<^verbatim>\<open>gracefulSessionSave\<close> are
  not among the sources. \<^verbatim>\<open>Save\<close> persists the session (last-completed marker and
  totals), \<^verbatim>\<open>Delete\<close> destroys it, and \<^verbatim>\<open>gracefulSessionSave\<close> persists the session
  and exits.
\<close>

definition session_Save :: "sessionV2 \<Rightarrow> sessionV2" where
  "session_Save session = session\<lparr>sessionFile := Some (Header session)\<rparr>"

definition session_Delete :: "sessionV2 \<Rightarrow> sessionV2" where
  "session_Delete session = session\<lparr>sessionFile := None, dataFile := []\<rparr>"

definition gracefulSessionSave :: "sessionV2 \<Rightarrow> (sessionV2 \<times> ending) run" where
  "gracefulSessionSave session = ([os_Exit], Inr (session_Save session, Exited))"

text \<open>
  Modelled from the spec: \<^verbatim>\<open>isCopiedFactory\<close> is not among the sources. The function
  it returns answers true for every item up to and including the last-completed marker
  and false from then on; with no marker nothing has been copied. \<open>copied\<close> is the
  variable the closure keeps between calls, true at the start.
\<close>

definition isCopied :: "string \<Rightarrow> bool \<Rightarrow> string \<Rightarrow> bool \<times> bool" where
  "isCopied lastCopied copied sourceURL' =
     (if lastCopied = [] then (False, copied)
      else if copied then (True, lastCopied \<noteq> sourceURL')
      else (False, False))"

subsection \<open>Preparing the session\<close>

text \<open>
  \<^verbatim>\<open>doPrepareMirrorURLs\<close>, the case \<^verbatim>\<open>sURLs, ok := <-URLsCh\<close> with \<^verbatim>\<open>ok\<close> true. The
  state is the session and the two local totals; \<open>Waiting\<close> in the result: the loop
  goes on.
\<close>

definition prepareReceive ::
  "extern \<Rightarrow> globals \<Rightarrow> sessionV2 \<times> int64 \<times> int64 \<Rightarrow> mirrorURLs1 \<Rightarrow>
   ((sessionV2 \<times> int64 \<times> int64) \<times> ending) run" where
  "prepareReceive ext g st sURLs =
     (case st of (session, totalBytes, totalObjects) \<Rightarrow>
      (let bar = (\<not> globalQuietFlag g \<and> \<not> globalJSONFlag g) in
       (case Error1 sURLs of
          Some e \<Rightarrow>
            ((if bar then [console_Eraseline] else [])
               @ [Trace e [], errorIf e UnableToPrepareURLsForMirroring],
             Inr (st, Waiting))
        | None \<Rightarrow>
            (case isEmpty1 ext sURLs of
               Inl p \<Rightarrow> ([], Inl p)
             | Inr True \<Rightarrow> ([], Inr (st, Waiting))
             | Inr False \<Rightarrow>
                 (case json_Marshal ext sURLs of
                    Inl e \<Rightarrow>
                      ([fatalIf e UnableToMarshalURLsIntoJSON],
                       Inr ((session_Delete session, totalBytes, totalObjects), Exited))
                  | Inr jsonData \<Rightarrow>
                      (case SourceContent1 sURLs of
                         None \<Rightarrow> ([], Inl NilDereference)
                       | Some sc \<Rightarrow>
                           ((if bar then [updateBar (Name sc)] else []),
                            Inr ((session\<lparr>dataFile := dataFile session @ [jsonData]\<rparr>,
                                  totalBytes + Size1 sc, totalObjects + 1), Waiting))))))))"

fun prepareLoop ::
  "extern \<Rightarrow> globals \<Rightarrow> sessionV2 \<times> int64 \<times> int64 \<Rightarrow> mirrorURLs1 chanSelect list \<Rightarrow>
   ((sessionV2 \<times> int64 \<times> int64) \<times> ending) run" where
  "prepareLoop ext g st [] = ([], Inr (st, Waiting))"
| "prepareLoop ext g st (Closed # rest) = ([], Inr (st, Returned))"
| "prepareLoop ext g st (Trap # rest) =
     (case st of (session, totalBytes, totalObjects) \<Rightarrow>
        ((if \<not> globalQuietFlag g \<and> \<not> globalJSONFlag g then [console_Eraseline] else [])
           @ [os_Exit],
         Inr ((session_Delete session, totalBytes, totalObjects), Exited)))"
| "prepareLoop ext g st (Recv sURLs # rest) =
     andThen (prepareReceive ext g st sURLs)
       (\<lambda>(st1, e). case e of
                     Waiting \<Rightarrow> prepareLoop ext g st1 rest
                   | Returned \<Rightarrow> ([], Inr (st1, Returned))
                   | Exited \<Rightarrow> ([], Inr (st1, Exited)))"

text \<open>
  \<^verbatim>\<open>doPrepareMirrorURLs\<close>. It first reads \<^verbatim>\<open>session.Header.CommandArgs[0]\<close> and
  \<^verbatim>\<open>session.Header.CommandArgs[1:]\<close>: with no argument at all the index is out of
  range and the function panics before it does anything else. \<open>sels\<close> is what the
  \<^verbatim>\<open>select\<close> then receives from \<^verbatim>\<open>prepareMirrorURLs(sourceURL, targetURLs)\<close> and from
  \<^verbatim>\<open>trapCh\<close>. Once the scan is done the totals go into the header and the session is
  saved.
\<close>

definition doPrepareMirrorURLs ::
  "extern \<Rightarrow> globals \<Rightarrow> sessionV2 \<Rightarrow> mirrorURLs1 chanSelect list \<Rightarrow> (sessionV2 \<times> ending) run" where
  "doPrepareMirrorURLs ext g session sels =
     (case CommandArgs (Header session) of
        [] \<Rightarrow> ([], Inl IndexOutOfRange)
      | srcURL # tgtURLs \<Rightarrow>
          andThen (prepareLoop ext g (session, 0, 0) sels)
            (\<lambda>((session1, totalBytes, totalObjects), e).
               case e of
                 Returned \<Rightarrow>
                   ([], Inr (session_Save
                               (session1\<lparr>Header := (Header session1)
                                           \<lparr>Header_TotalBytes := totalBytes,
                                            Header_TotalObjects := totalObjects\<rparr>\<rparr>),
                             Returned))
               | Exited \<Rightarrow> ([], Inr (session1, Exited))
               | Waiting \<Rightarrow> ([], Inr (session1, Waiting))))"

subsection \<open>Running the session\<close>

text \<open>
  The goroutine of \<^verbatim>\<open>doMirrorSession\<close> that monitors the status channel and the
  signal trap: first what it does with one item received.
\<close>

definition statusReceive1 :: "globals \<Rightarrow> sessionV2 \<Rightarrow> mirrorURLs1 \<Rightarrow> (sessionV2 \<times> ending) run" where
  "statusReceive1 g session sURLs =
     (let bar = (\<not> globalQuietFlag g \<and> \<not> globalJSONFlag g) in
      case Error1 sURLs of
        None \<Rightarrow>
          (case SourceContent1 sURLs of
             None \<Rightarrow> ([], Inl NilDereference)
           | Some sc \<Rightarrow>
               ([], Inr (session_Save (session\<lparr>Header := (Header session)\<lparr>LastCopied := Name sc\<rparr>\<rparr>),
                         Waiting)))
      | Some e \<Rightarrow>
          after ((if bar then [console_Eraseline] else []) @ [Trace e []])
            (case SourceContent1 sURLs of
               None \<Rightarrow> ([], Inl NilDereference)
             | Some sc \<Rightarrow>
                 after [errorIf e (FailedToMirror (Name sc))]
                   (if errType e = net_OpError then gracefulSessionSave session
                    else if errType e = net_Error then gracefulSessionSave session
                    else ([], Inr (session, Waiting)))))"

fun statusLoop1 ::
  "globals \<Rightarrow> progressReader \<Rightarrow> sessionV2 \<Rightarrow> mirrorURLs1 chanSelect list \<Rightarrow>
   (sessionV2 \<times> ending) run" where
  "statusLoop1 g pr session [] = ([], Inr (session, Waiting))"
| "statusLoop1 g pr session (Closed # rest) =
     andThen
       (if \<not> globalQuietFlag g \<and> \<not> globalJSONFlag g
        then andThen (assert_barSend pr) (\<lambda>_. ([bar_Finish], Inr ()))
        else andThen (assert_accounter pr) (\<lambda>_. ([accounter_Finish], Inr ())))
       (\<lambda>_. ([], Inr (session, Returned)))"
| "statusLoop1 g pr session (Trap # rest) =
     after (if \<not> globalQuietFlag g \<and> \<not> globalJSONFlag g then [console_Eraseline] else [])
       (gracefulSessionSave session)"
| "statusLoop1 g pr session (Recv sURLs # rest) =
     andThen (statusReceive1 g session sURLs)
       (\<lambda>(session1, e). case e of
                          Waiting \<Rightarrow> statusLoop1 g pr session1 rest
                        | Returned \<Rightarrow> ([], Inr (session1, Returned))
                        | Exited \<Rightarrow> ([], Inr (session1, Exited)))"

text \<open>
  The goroutine of \<^verbatim>\<open>doMirrorSession\<close> that reads the data file line by line: an item
  already copied gets the fake mirror, any other takes a slot of \<^verbatim>\<open>mirrorQueue\<close> and
  gets a \<^verbatim>\<open>doMirror\<close> goroutine of its own. The result is the state of \<open>copied\<close>.
\<close>

fun transferLoop ::
  "extern \<Rightarrow> globals \<Rightarrow> progressReader \<Rightarrow> string \<Rightarrow> bool \<Rightarrow> string list \<Rightarrow> bool run" where
  "transferLoop ext g pr lastCopied copied [] = ([], Inr copied)"
| "transferLoop ext g pr lastCopied copied (line # rest) =
     (let sURLs = json_Unmarshal ext line in
      case SourceContent1 sURLs of
        None \<Rightarrow> ([], Inl NilDereference)
      | Some sc \<Rightarrow>
          (case isCopied lastCopied copied (Name sc) of
             (True, copied1) \<Rightarrow>
               andThen (doMirrorFake g sURLs pr)
                 (\<lambda>_. transferLoop ext g pr lastCopied copied1 rest)
           | (False, copied1) \<Rightarrow>
               after [Send_mirrorQueue, Go_doMirror sURLs]
                 (transferLoop ext g pr lastCopied copied1 rest)))"

text \<open>
  \<^verbatim>\<open>doMirrorSession\<close> up to the start of its goroutines: the scan, unless the session
  has data (\<open>hasData\<close> is what \<^verbatim>\<open>session.HasData()\<close> returns), and the progress reader.
\<close>

definition doMirrorSession_setup ::
  "extern \<Rightarrow> globals \<Rightarrow> bool \<Rightarrow> sessionV2 \<Rightarrow> mirrorURLs1 chanSelect list \<Rightarrow>
   ((sessionV2 \<times> ending) \<times> progressReader) run" where
  "doMirrorSession_setup ext g hasData session sels =
     andThen
       (if \<not> hasData then doPrepareMirrorURLs ext g session sels
        else ([], Inr (session, Returned)))
       (\<lambda>r. ([], Inr (r, newProgressReader g)))"

section \<open>Concrete inputs\<close>

text \<open>
  A small outside world to run the definitions in: no aliases, every client can be
  made, a stat finds nothing, joining is concatenation.
\<close>

definition notFound :: probe_Error where
  "notFound = \<lparr>errType = otherError, errText = ''Object does not exist.''\<rparr>"

definition url0 :: "string \<Rightarrow> clientURL" where
  "url0 s = \<lparr>Path = s, Separator = ''/'', URL_String = s\<rparr>"

definition extern0 :: extern where
  "extern0 =
     \<lparr>newURL = url0,
      mustExpandAlias = (\<lambda>s. ([], s)),
      newClientFromAlias = (\<lambda>a u. None),
      differenceCh = (\<lambda>a b. []),
      urlJoinPath = (\<lambda>a b. a @ b),
      errInvalidTarget = (\<lambda>u. \<lparr>errType = otherError, errText = ''Invalid target '' @ u\<rparr>),
      errOverWriteNotAllowed =
        (\<lambda>u. \<lparr>errType = otherError, errText = ''Overwrite not allowed for '' @ u\<rparr>),
      newClientURL = url0,
      newClient = (\<lambda>u. None),
      client_Stat = (\<lambda>u. Inl notFound),
      removeSingle = (\<lambda>u. None),
      uploadSourceToTargetURL = (\<lambda>m. m),
      filepath_Abs = (\<lambda>s. Some s),
      filepath_Join = (\<lambda>a b. a @ b),
      filepath_ToSlash = (\<lambda>s. s),
      strings_Replace = (\<lambda>s old new. s),
      getSource = (\<lambda>u. (0, None)),
      putTargets = (\<lambda>us n. None),
      isEmpty1 = (\<lambda>m. Inr False),
      json_Marshal = (\<lambda>m. Inr (case SourceContent1 m of Some sc \<Rightarrow> Name sc | None \<Rightarrow> [])),
      json_Unmarshal =
        (\<lambda>l. \<lparr>SourceContent1 = Some \<lparr>Name = l, Size1 = 0\<rparr>, TargetContents1 = [],
               Error1 = None\<rparr>)\<rparr>"

definition content0 :: "string \<Rightarrow> int64 \<Rightarrow> clientContent" where
  "content0 u n = \<lparr>URL = url0 u, Size = n\<rparr>"

text \<open>An entry of the differencer for \<^verbatim>\<open>src/a\<close> (10 bytes) against \<^verbatim>\<open>dst/a\<close> (5 bytes).\<close>

definition diff0 :: "differType \<Rightarrow> diffMessage" where
  "diff0 t =
     \<lparr>err = None, dType = t, sourceURL = ''src/a'', targetURL = ''dst/a'',
      sourceContent = Some (content0 ''src/a'' 10),
      targetContent = Some (content0 ''dst/a'' 5)\<rparr>"

text \<open>The same outside world with a differencer that yields the entries \<open>ds\<close>.\<close>

definition externDiff :: "diffMessage list \<Rightarrow> extern" where
  "externDiff ds = extern0\<lparr>differenceCh := (\<lambda>a b. ds)\<rparr>"

text \<open>A copy item, a delete-only item and an error-only item.\<close>

definition copyItem :: mirrorURLs where
  "copyItem = mirrorURLs_zero\<lparr>SourceContent := Some (content0 ''src/a'' 10),
                TargetContent := Some (content0 ''dst/a'' 0)\<rparr>"

definition deleteItem :: mirrorURLs where
  "deleteItem = mirrorURLs_zero\<lparr>TargetContent := Some (content0 ''dst/stale'' 0)\<rparr>"

definition errorItem :: mirrorURLs where
  "errorItem = mirrorURLs_zero\<lparr>Error := Some notFound\<rparr>"

text \<open>A job with the given force, fake and remove flags, and two watcher events.\<close>

definition job0 :: "bool \<Rightarrow> bool \<Rightarrow> bool \<Rightarrow> mirrorJob" where
  "job0 force fake remove =
     \<lparr>ctx_force = force, ctx_fake = fake, ctx_remove = remove, watcherRunning = True,
      status_Total = 0, TotalObjects = 0, TotalBytes = 0,
      mj_sourceURL = ''src/'', mj_targetURL = ''dst/''\<rparr>"

definition createEvent :: Event where
  "createEvent = \<lparr>Event_Type = EventCreate, Event_Path = ''src/a'', Event_Size = 0\<rparr>"

definition removeEvent :: Event where
  "removeEvent = \<lparr>Event_Type = EventRemove, Event_Path = ''src/a'', Event_Size = 0\<rparr>"

text \<open>The switches of a quiet run and of a run with the progress bar.\<close>

definition gQuiet :: globals where
  "gQuiet = \<lparr>globalQuietFlag = True, globalJSONFlag = False, globalDebugFlag = False\<rparr>"

definition gBar :: globals where
  "gBar = \<lparr>globalQuietFlag = False, globalJSONFlag = False, globalDebugFlag = False\<rparr>"

text \<open>An item of the session engine, a session under way and a session just created.\<close>

definition item1 :: "string \<Rightarrow> mirrorURLs1" where
  "item1 n =
     \<lparr>SourceContent1 = Some \<lparr>Name = n, Size1 = 10\<rparr>,
      TargetContents1 = [\<lparr>Name = ''dst/'' @ n, Size1 = 0\<rparr>], Error1 = None\<rparr>"

definition session0 :: sessionV2 where
  "session0 =
     \<lparr>Header = \<lparr>CommandArgs = [''src/'', ''dst/''], LastCopied = ''a'',
                 Header_TotalBytes = 30, Header_TotalObjects = 3\<rparr>,
      sessionFile = None, dataFile = [''a'', ''b'', ''c'']\<rparr>"

definition sessionNew :: sessionV2 where
  "sessionNew =
     \<lparr>Header = \<lparr>CommandArgs = [''src/'', ''dst/''], LastCopied = [],
                 Header_TotalBytes = 0, Header_TotalObjects = 0\<rparr>,
      sessionFile = Some \<lparr>CommandArgs = [''src/'', ''dst/''], LastCopied = [],
                            Header_TotalBytes = 0, Header_TotalObjects = 0\<rparr>,
      dataFile = []\<rparr>"

section \<open>Reading the effect log\<close>

text \<open>The remove operations in a log, and the \<^verbatim>\<open>doMirror\<close> goroutines started in it.\<close>

definition is_removeSingle :: "effect \<Rightarrow> bool" where
  "is_removeSingle e = (case e of Call_removeSingle p \<Rightarrow> True | _ \<Rightarrow> False)"

definition removes :: "effect list \<Rightarrow> effect list" where
  "removes es = filter is_removeSingle es"

definition is_Go_doMirror :: "effect \<Rightarrow> bool" where
  "is_Go_doMirror e = (case e of Go_doMirror x \<Rightarrow> True | _ \<Rightarrow> False)"

definition transfers :: "effect list \<Rightarrow> effect list" where
  "transfers es = filter is_Go_doMirror es"

text \<open>
  What the log shows for a line of the data file that is replayed as a fake progress
  advance of its size, and for a line that takes a slot and is mirrored.
\<close>

definition replayed :: "extern \<Rightarrow> string \<Rightarrow> effect list" where
  "replayed ext l =
     (case SourceContent1 (json_Unmarshal ext l) of
        Some sc \<Rightarrow> [bar_Progress (Size1 sc)]
      | None \<Rightarrow> [])"

definition started :: "extern \<Rightarrow> string \<Rightarrow> effect list" where
  "started ext l = [Send_mirrorQueue, Go_doMirror (json_Unmarshal ext l)]"

section \<open>Properties of the work item generator\<close>

lemma deltaEntry_differInSize:
  "err d = None \<Longrightarrow> dType d = differInSize \<Longrightarrow>
   deltaEntry ext sa su ta tu isForce isFake isRemove d = Inr []"
  by (simp add: deltaEntry_def)


text \<open>
  C1. The claim: a differs-in-size entry gives an error item (overwrite not allowed)
  when force is off and a copy item when force is on. The first test of the loop holds
  for every differs-in-size entry, whatever the flags, so the round ends there and
  nothing is sent: neither the error item nor the copy item. Evaluated for a source
  \<^verbatim>\<open>src\<close> and a target \<^verbatim>\<open>dst\<close> whose only difference is the entry
  \<open>diff0 differInSize\<close>, without force and with it.
\<close>

theorem differInSize_sends_nothing:
  "deltaSourceTargets (externDiff [diff0 differInSize]) ''src'' ''dst'' False False False
     = ([], None)
   \<and> deltaSourceTargets (externDiff [diff0 differInSize]) ''src'' ''dst'' True False False
       = ([], None)"
  by (simp add: deltaSourceTargets_def externDiff_def extern0_def url0_def HasSuffix_def Let_def
        deltaEntry_differInSize diff0_def)

text \<open>
  An identical entry is skipped under every combination of the flags, and an entry that
  differs in time only is skipped when remove and force are both set.
\<close>

lemma deltaEntry_identical_skipped:
  "err d = None \<Longrightarrow> dType d = differInNone \<Longrightarrow>
   deltaEntry ext sa su ta tu isForce isFake isRemove d = Inr []"
  by (simp add: deltaEntry_def)

lemma deltaEntry_differInTime_skipped:
  "err d = None \<Longrightarrow> dType d = differInTime \<Longrightarrow> isRemove \<Longrightarrow> isForce \<Longrightarrow>
   deltaEntry ext sa su ta tu isForce isFake isRemove d = Inr []"
  by (simp add: deltaEntry_def)

text \<open>
  Under any other combination no test of the loop names \<open>differInTime\<close>, and the entry
  falls through to the copy path at the end of the round, the path whose comment reads
  ``either available only in source or size differs and force is set''.
\<close>

lemma deltaEntry_differInTime_falls_through:
  "err d = None \<Longrightarrow> dType d = differInTime \<Longrightarrow> \<not> (isRemove \<and> isForce) \<Longrightarrow>
   sourceContent d = Some sc \<Longrightarrow>
   deltaEntry ext sa su ta tu isForce isFake isRemove d =
     Inr [mirrorURLs_zero
            \<lparr>SourceAlias := sa, SourceContent := Some sc, TargetAlias := ta,
             TargetContent := Some
               \<lparr>URL = newURL ext (urlJoinPath ext tu (TrimPrefix (URL_String (URL sc)) su)),
                Size = 0\<rparr>\<rparr>]"
  by (auto simp: deltaEntry_def)

text \<open>
  C2. The claim: an entry that differs in time only is skipped under every combination
  of the flags and is never turned into a copy. Evaluated for a source \<^verbatim>\<open>src\<close> and a
  target \<^verbatim>\<open>dst\<close> whose only difference is the entry \<open>diff0 differInTime\<close>, with the
  force, fake and remove flags all off: the generator sends a copy item for \<^verbatim>\<open>src/a\<close>
  onto the existing \<^verbatim>\<open>dst/a\<close>.
\<close>

theorem differInTime_copied_without_force:
  "deltaSourceTargets (externDiff [diff0 differInTime]) ''src'' ''dst'' False False False =
     ([mirrorURLs_zero\<lparr>SourceContent := Some (content0 ''src/a'' 10),
         TargetContent := Some (content0 ''dst/a'' 0)\<rparr>], None)"
  by (simp add: deltaSourceTargets_def externDiff_def extern0_def url0_def HasSuffix_def Let_def
        deltaEntry_def diff0_def content0_def TrimPrefix_def HasPrefix_def mirrorURLs_zero_def)

text \<open>
  The one-shot pass, force off, then uploads that item over the target that is there.
\<close>

lemma differInTime_overwrites_without_force:
  "fst (startMirror extern0 (job0 False False False)
          [Recv (mirrorURLs_zero\<lparr>SourceContent := Some (content0 ''src/a'' 10),
                   TargetContent := Some (content0 ''dst/a'' 0)\<rparr>), Closed]) =
     (let item = mirrorURLs_zero\<lparr>SourceContent := Some (content0 ''src/a'' 10),
                   TargetContent := Some (content0 ''dst/a'' 0), TotalCount := 1,
                   TotalSize := 10\<rparr>
      in [status_SetTotal 10, status_SetCaption ''src/a: '',
          status_PrintMsg (mirrorMessage ''src/a'' ''dst/a'' 10 1 10),
          Call_uploadSourceToTargetURL item, Send_statusCh item])"
  by (simp add: startMirror_def startReceive_def doMirror_def job0_def extern0_def Let_def
        andThen_def after_def content0_def url0_def mirrorURLs_zero_def)



text \<open>
  C10. \<^verbatim>\<open>isEmpty\<close> returns without a panic exactly when \<^verbatim>\<open>SourceContent\<close> is not nil or
  all three of \<^verbatim>\<open>SourceContent\<close>, \<^verbatim>\<open>TargetContent\<close> and \<^verbatim>\<open>Error\<close> are nil. For a
  delete-only item and for an error-only item it dereferences the nil \<^verbatim>\<open>SourceContent\<close>.
\<close>

theorem isEmpty_safe_iff:
  "((\<exists>b. isEmpty m = Inr b) \<longleftrightarrow>
      (SourceContent m \<noteq> None
       \<or> (SourceContent m = None \<and> TargetContent m = None \<and> Error m = None)))
   \<and> (SourceContent m = None \<and> TargetContent m \<noteq> None \<longrightarrow> isEmpty m = Inl NilDereference)
   \<and> (SourceContent m = None \<and> Error m \<noteq> None \<longrightarrow> isEmpty m = Inl NilDereference)"
  by (auto simp: isEmpty_def split: option.splits)

theorem isEmpty_safe_iff_witness:
  "SourceContent deleteItem = None \<and> TargetContent deleteItem \<noteq> None
   \<and> isEmpty deleteItem = Inl NilDereference
   \<and> SourceContent errorItem = None \<and> Error errorItem \<noteq> None
   \<and> isEmpty errorItem = Inl NilDereference
   \<and> (\<exists>b. isEmpty copyItem = Inr b)
   \<and> (\<exists>b. isEmpty mirrorURLs_zero = Inr b)"
  using isEmpty_safe_iff [of deleteItem] isEmpty_safe_iff [of errorItem]
        isEmpty_safe_iff [of copyItem] isEmpty_safe_iff [of mirrorURLs_zero]
  by (simp add: deleteItem_def errorItem_def copyItem_def mirrorURLs_zero_def)

section \<open>Properties of runs\<close>

lemma fst_after [simp]: "fst (after es m) = es @ fst m"
  by (simp add: after_def)

lemma snd_after [simp]: "snd (after es m) = snd m"
  by (simp add: after_def)

lemma andThen_return [simp]: "andThen ([], Inr x) f = f x"
  by (simp add: andThen_def split: prod.splits)

lemma fst_andThen:
  "fst (andThen m f) = (case snd m of Inl p \<Rightarrow> fst m | Inr x \<Rightarrow> fst m @ fst (f x))"
  by (cases m) (auto simp: andThen_def split: sum.splits prod.splits)

lemma snd_andThen:
  "snd (andThen m f) = (case snd m of Inl p \<Rightarrow> Inl p | Inr x \<Rightarrow> snd (f x))"
  by (cases m) (auto simp: andThen_def split: sum.splits prod.splits)

lemma andThen_assoc:
  "andThen (andThen m f) h = andThen m (\<lambda>x. andThen (f x) h)"
  by (cases m) (auto simp: andThen_def split: sum.splits prod.splits)

lemma removes_simps [simp]:
  "removes [] = []"
  "removes (es @ es') = removes es @ removes es'"
  "removes (Call_removeSingle p # es) = Call_removeSingle p # removes es"
  "removes (Trace e fs # es) = removes es"
  "removes (errorIf e m # es) = removes es"
  "removes (status_errorIf e m # es) = removes es"
  "removes (Send_statusCh x # es) = removes es"
  "removes (Call_newClient u # es) = removes es"
  "removes (Call_Stat u # es) = removes es"
  "removes (Call_uploadSourceToTargetURL x # es) = removes es"
  "removes (status_Add n # es) = removes es"
  "removes (status_SetCaption c # es) = removes es"
  "removes (status_PrintMsg msg # es) = removes es"
  "removes (status_SetTotal n # es) = removes es"
  "removes (os_Exit # es) = removes es"
  by (simp_all add: removes_def is_removeSingle_def)

lemma removes_andThen:
  "removes (fst m) = [] \<Longrightarrow> (\<And>x. snd m = Inr x \<Longrightarrow> removes (fst (f x)) = []) \<Longrightarrow>
   removes (fst (andThen m f)) = []"
  by (simp add: fst_andThen split: sum.splits)

lemma transfers_simps [simp]:
  "transfers [] = []"
  "transfers (es @ es') = transfers es @ transfers es'"
  "transfers (Go_doMirror x # es) = Go_doMirror x # transfers es"
  "transfers (Send_mirrorQueue # es) = transfers es"
  "transfers (bar_Progress n # es) = transfers es"
  by (simp_all add: transfers_def is_Go_doMirror_def)

lemma transfers_andThen:
  "transfers (fst m) = [] \<Longrightarrow> (\<And>x. snd m = Inr x \<Longrightarrow> transfers (fst (f x)) = []) \<Longrightarrow>
   transfers (fst (andThen m f)) = []"
  by (simp add: fst_andThen split: sum.splits)

section \<open>Properties of the watch-capable engine\<close>

subsection \<open>Where a remove can come from\<close>

lemma doMirror_no_remove: "removes (fst (doMirror ext mj sURLs)) = []"
  by (simp add: doMirror_def Let_def split: option.splits)

lemma doRemove_removes:
  "removes (fst (doRemove ext mj sURLs)) =
     (if ctx_fake mj then []
      else case TargetContent sURLs of
             None \<Rightarrow> []
           | Some tc \<Rightarrow>
               [Call_removeSingle (filepath_Join ext (TargetAlias sURLs) (Path (URL tc)))])"
  by (simp add: doRemove_def Let_def split: option.splits)

lemma queueMirror_no_remove: "removes (fst (queueMirror ext mj m n)) = []"
  by (simp add: queueMirror_def Let_def removes_andThen doMirror_no_remove)

lemma watchEvent_Create_no_remove:
  "Event_Type event = EventCreate \<Longrightarrow> removes (fst (watchEvent ext mj event)) = []"
  by (simp add: watchEvent_def Let_def queueMirror_no_remove
        split: prod.splits option.splits sum.splits)

lemma watchEvent_Remove_gated:
  "Event_Type event = EventRemove \<Longrightarrow> \<not> (ctx_remove mj \<and> ctx_force mj) \<Longrightarrow>
   fst (watchEvent ext mj event) = []"
  by (auto simp add: watchEvent_def Let_def split: prod.splits)

lemma watchEvent_no_remove:
  "\<not> (ctx_remove mj \<and> ctx_force mj) \<Longrightarrow> removes (fst (watchEvent ext mj event)) = []"
  by (cases "Event_Type event")
     (simp_all add: watchEvent_Create_no_remove watchEvent_Remove_gated)

lemma watchEvent_flags:
  "snd (watchEvent ext mj event) = Inr (mj1, c) \<Longrightarrow>
   ctx_remove mj1 = ctx_remove mj \<and> ctx_force mj1 = ctx_force mj \<and> ctx_fake mj1 = ctx_fake mj"
  by (auto simp add: watchEvent_def Let_def queueMirror_def snd_andThen
        split: prod.splits option.splits sum.splits EventType.splits if_splits)

lemma watchSelected_no_remove:
  "\<not> (ctx_remove mj \<and> ctx_force mj) \<Longrightarrow> removes (fst (watchSelected ext mj sel)) = []"
  by (cases sel) (simp_all add: watchSelected_def watchEvent_no_remove)

lemma watchSelected_flags:
  "snd (watchSelected ext mj sel) = Inr (mj1, c) \<Longrightarrow>
   ctx_remove mj1 = ctx_remove mj \<and> ctx_force mj1 = ctx_force mj \<and> ctx_fake mj1 = ctx_fake mj"
  by (cases sel) (auto simp: watchSelected_def dest: watchEvent_flags split: if_splits)

text \<open>The flags never change while the watcher runs, so the gate holds in every round.\<close>

lemma watchMirror_no_remove:
  "\<not> (ctx_remove mj \<and> ctx_force mj) \<Longrightarrow> removes (fst (watchMirror mj evs)) = []"
proof (induction evs arbitrary: mj)
  case Nil
  then show ?case by simp
next
  case (Cons ev evs)
  obtain ext sel where ev: "ev = (ext, sel)" by (cases ev)
  have "removes (fst (andThen (watchSelected ext mj sel)
                  (\<lambda>(mj1, c). case c of Return \<Rightarrow> ([], Inr (mj1, Return))
                                        | Continue \<Rightarrow> watchMirror mj1 evs))) = []"
  proof (rule removes_andThen)
    show "removes (fst (watchSelected ext mj sel)) = []"
      using Cons.prems by (rule watchSelected_no_remove)
  next
    fix x
    assume x: "snd (watchSelected ext mj sel) = Inr x"
    obtain mj1 c where xc: "x = (mj1, c)" by (cases x)
    from x xc have "\<not> (ctx_remove mj1 \<and> ctx_force mj1)"
      using watchSelected_flags [of ext mj sel mj1 c] Cons.prems by simp
    then have "removes (fst (watchMirror mj1 evs)) = []" by (rule Cons.IH)
    then show "removes (fst (case x of (mj1, c) \<Rightarrow>
                 (case c of Return \<Rightarrow> ([], Inr (mj1, Return))
                          | Continue \<Rightarrow> watchMirror mj1 evs))) = []"
      by (simp add: xc split: control.splits)
  qed
  then show ?case by (simp add: ev)
qed

lemma startReceive_no_remove:
  "\<not> (ctx_remove (fst st) \<and> ctx_force (fst st)) \<Longrightarrow>
   removes (fst (startReceive ext st sURLs)) = []"
  by (cases st)
     (auto simp add: startReceive_def Let_def removes_andThen doMirror_no_remove
           split: option.splits)

lemma startReceive_flags:
  "snd (startReceive ext st sURLs) = Inr st1 \<Longrightarrow>
   ctx_remove (fst st1) = ctx_remove (fst st) \<and> ctx_force (fst st1) = ctx_force (fst st)
   \<and> ctx_fake (fst st1) = ctx_fake (fst st)"
  by (cases st)
     (auto simp add: startReceive_def Let_def snd_andThen
           split: option.splits if_splits sum.splits)

lemma startLoop_no_remove:
  "\<not> (ctx_remove (fst st) \<and> ctx_force (fst st)) \<Longrightarrow>
   removes (fst (startLoop ext st sels)) = []"
proof (induction ext st sels rule: startLoop.induct)
  case (4 ext st sURLs rest)
  show ?case
    unfolding startLoop.simps
  proof (rule removes_andThen)
    show "removes (fst (startReceive ext st sURLs)) = []"
      using "4.prems" by (rule startReceive_no_remove)
  next
    fix st1
    assume "snd (startReceive ext st sURLs) = Inr st1"
    then have "\<not> (ctx_remove (fst st1) \<and> ctx_force (fst st1))"
      using startReceive_flags [of ext st sURLs st1] "4.prems" by simp
    then show "removes (fst (startLoop ext st1 rest)) = []"
      by (rule "4.IH")
  qed
qed simp_all

text \<open>
  The generator itself sends nothing for an entry that is only in the target, with or
  without the flags: the send under remove and force is commented out in the source.
\<close>

lemma deltaEntry_differInSecond:
  "err d = None \<Longrightarrow> dType d = differInSecond \<Longrightarrow>
   deltaEntry ext sa su ta tu isForce isFake isRemove d = Inr []"
  by (simp add: deltaEntry_def)

text \<open>With remove and force both set, and no fake run, a remove event does remove.\<close>

lemma watchEvent_Remove_performed:
  "fst (watchEvent extern0 (job0 True False True) removeEvent) =
     [Call_removeSingle ''dst/a'',
      Send_statusCh (mirrorURLs_zero\<lparr>TargetContent := Some (content0 ''dst/a'' 0)\<rparr>)]"
  by (simp add: watchEvent_def watchPaths_def job0_def removeEvent_def extern0_def Let_def
        doRemove_def andThen_def WithError_def TrimPrefix_def HasPrefix_def content0_def
        url0_def mirrorURLs_zero_def)

text \<open>
  C4. Unless remove and force are both set, no remove operation is performed on the
  target: not by the one-shot pass, whatever items it receives from the generator (an
  item for an only-in-target entry among them), and not by the watcher, whatever events
  arrive and however the outside world answers.
\<close>

theorem remove_needs_remove_and_force:
  assumes "\<not> (ctx_remove mj \<and> ctx_force mj)"
  shows "removes (fst (startMirror ext mj sels)) = []
       \<and> removes (fst (watchMirror mj evs)) = []"
  using assms startLoop_no_remove [of "(mj, 0, 0)" ext sels] watchMirror_no_remove [of mj evs]
  by (simp add: startMirror_def)

theorem remove_needs_remove_and_force_witness:
  "\<not> (ctx_remove (job0 False False True) \<and> ctx_force (job0 False False True))
   \<and> removes (fst (startMirror extern0 (job0 False False True) [Recv deleteItem, Closed])) = []
   \<and> removes (fst (watchMirror (job0 False False True)
                     [(extern0, Recv_Events removeEvent)])) = []"
  using remove_needs_remove_and_force
          [where mj = "job0 False False True" and ext = extern0
             and sels = "[Recv deleteItem, Closed]"
             and evs = "[(extern0, Recv_Events removeEvent)]"]
  by (simp add: job0_def)

subsection \<open>A create event whose source has vanished\<close>

text \<open>
  C3, as the claim states it, fails: the source of \<open>createEvent\<close> is gone when the
  watcher stats it, and the watcher sends an item with the stat's error to the status
  channel, where the status goroutine reports it with \<^verbatim>\<open>errorIf\<close>.
\<close>

theorem watch_create_vanished_counterexample:
  "fst (watchEvent extern0 (job0 False False False) createEvent) =
     [Call_newClient ''src/a'', Call_Stat ''src/a'',
      Send_statusCh (copyItem\<lparr>SourceContent := Some (content0 ''src/a'' 0),
                               Error := Some notFound\<rparr>)]
   \<and> fst (statusReceive extern0
            (copyItem\<lparr>SourceContent := Some (content0 ''src/a'' 0), Error := Some notFound\<rparr>)) =
     [Trace notFound [''src/a''], errorIf notFound (FailedToCopy ''src/a'')]"
  by (simp add: watchEvent_def watchPaths_def job0_def createEvent_def extern0_def Let_def
        andThen_def after_def WithError_def TrimPrefix_def HasPrefix_def content0_def
        url0_def mirrorURLs_zero_def copyItem_def statusReceive_def)

text \<open>
  C3, amended. For a create event of size 0 whose source client can be made and whose
  stat fails, the round of the watcher makes the client, stats, sends one item that
  carries the stat's error to the status channel and goes on with the next event:
  \<^verbatim>\<open>doMirror\<close> is not called and nothing is uploaded. The status goroutine reports that
  item to the user as a failed copy.
\<close>

theorem watch_create_stat_failure:
  assumes "Event_Type event = EventCreate" and "Event_Size event = 0"
    and "watchPaths ext mj event =
           (sourceAlias, sourceURL', aliasedPath, targetPath, targetAlias, targetURL')"
    and "newClient ext aliasedPath = None"
    and "client_Stat ext aliasedPath = Inl e"
    and "item = mirrorURLs_zero
                  \<lparr>SourceAlias := sourceAlias,
                   SourceContent := Some \<lparr>URL = sourceURL', Size = 0\<rparr>,
                   TargetAlias := targetAlias,
                   TargetContent := Some \<lparr>URL = targetURL', Size = 0\<rparr>,
                   Error := Some e\<rparr>"
  shows "watchEvent ext mj event =
           ([Call_newClient aliasedPath, Call_Stat aliasedPath, Send_statusCh item],
            Inr (mj, Continue))
       \<and> statusReceive ext item =
           ([Trace e [URL_String sourceURL'], errorIf e (FailedToCopy (URL_String sourceURL'))],
            Inr ())"
  using assms
  by (simp add: watchEvent_def Let_def after_def WithError_def statusReceive_def andThen_def
        mirrorURLs_zero_def)

theorem watch_create_stat_failure_witness:
  "Event_Type createEvent = EventCreate \<and> Event_Size createEvent = 0
   \<and> watchPaths extern0 (job0 False False False) createEvent =
        ([], url0 ''src/a'', ''src/a'', ''dst/a'', [], url0 ''dst/a'')
   \<and> newClient extern0 ''src/a'' = None
   \<and> client_Stat extern0 ''src/a'' = Inl notFound
   \<and> watchEvent extern0 (job0 False False False) createEvent =
        ([Call_newClient ''src/a'', Call_Stat ''src/a'',
          Send_statusCh (mirrorURLs_zero
            \<lparr>SourceAlias := [], SourceContent := Some \<lparr>URL = url0 ''src/a'', Size = 0\<rparr>,
             TargetAlias := [], TargetContent := Some \<lparr>URL = url0 ''dst/a'', Size = 0\<rparr>,
             Error := Some notFound\<rparr>)],
         Inr (job0 False False False, Continue))
   \<and> statusReceive extern0 (mirrorURLs_zero
            \<lparr>SourceAlias := [], SourceContent := Some \<lparr>URL = url0 ''src/a'', Size = 0\<rparr>,
             TargetAlias := [], TargetContent := Some \<lparr>URL = url0 ''dst/a'', Size = 0\<rparr>,
             Error := Some notFound\<rparr>) =
        ([Trace notFound [''src/a''], errorIf notFound (FailedToCopy ''src/a'')], Inr ())"
proof -
  have h1: "Event_Type createEvent = EventCreate" and h2: "Event_Size createEvent = 0"
    by (simp_all add: createEvent_def)
  have h3: "watchPaths extern0 (job0 False False False) createEvent =
              ([], url0 ''src/a'', ''src/a'', ''dst/a'', [], url0 ''dst/a'')"
    by (simp add: watchPaths_def extern0_def job0_def createEvent_def TrimPrefix_def
          HasPrefix_def Let_def)
  have h4: "newClient extern0 ''src/a'' = None"
    and h5: "client_Stat extern0 ''src/a'' = Inl notFound"
    by (simp_all add: extern0_def)
  show ?thesis
    using h1 h2 h3 h4 h5 watch_create_stat_failure [OF h1 h2 h3 h4 h5 refl]
    by (simp add: url0_def)
qed

section \<open>Properties of the scheduler\<close>

text \<open>
  C7. An item that reaches \<^verbatim>\<open>doMirror\<close> with an error is passed on as it is. In the
  watch-capable engine \<^verbatim>\<open>doMirror\<close> returns the very item, and the caller's
  \<^verbatim>\<open>mj.statusCh <- mj.doMirror(sURLs)\<close> sends it; in the session engine \<^verbatim>\<open>doMirror\<close>
  sends the item on the status channel, gives its slot back and tells the wait group.
  In both the only other effect is the call of \<^verbatim>\<open>Trace\<close> on the item's error: no
  source is opened, nothing is put and nothing is removed.
\<close>

theorem doMirror_erroneous_item:
  assumes "Error sURLs = Some e" and "Error1 sURLs1 = Some e1"
  shows "doMirror ext mj sURLs = ([Trace e []], Inr sURLs)
       \<and> andThen (doMirror ext mj sURLs) (\<lambda>r. ([Send_statusCh r], Inr k))
           = ([Trace e [], Send_statusCh sURLs], Inr k)
       \<and> doMirror1 ext g sURLs1 pr
           = ([Trace e1 [], Send_statusCh1 sURLs1, Recv_mirrorQueueCh, wg_Done], Inr ())"
  using assms
  by (simp add: doMirror_def doMirror1_def doMirror1_body_def WithError_def andThen_def Let_def)

theorem doMirror_erroneous_item_witness:
  "Error errorItem = Some notFound
   \<and> Error1 ((item1 ''a'')\<lparr>Error1 := Some notFound\<rparr>) = Some notFound
   \<and> doMirror extern0 (job0 False False False) errorItem = ([Trace notFound []], Inr errorItem)
   \<and> andThen (doMirror extern0 (job0 False False False) errorItem)
        (\<lambda>r. ([Send_statusCh r], Inr ()))
       = ([Trace notFound [], Send_statusCh errorItem], Inr ())
   \<and> doMirror1 extern0 gBar ((item1 ''a'')\<lparr>Error1 := Some notFound\<rparr>) barSend
       = ([Trace notFound [], Send_statusCh1 ((item1 ''a'')\<lparr>Error1 := Some notFound\<rparr>),
           Recv_mirrorQueueCh, wg_Done], Inr ())"
proof -
  have h1: "Error errorItem = Some notFound"
    by (simp add: errorItem_def)
  have h2: "Error1 ((item1 ''a'')\<lparr>Error1 := Some notFound\<rparr>) = Some notFound"
    by simp
  show ?thesis
    using h1 h2
      doMirror_erroneous_item [OF h1 h2, of extern0 "job0 False False False" "()" gBar barSend]
    by blast
qed

text \<open>
  C9. The claim: \<^verbatim>\<open>doMirrorFake\<close> does not panic with the progress reader its caller
  sets up, whatever the switches. With the quiet switch on and the JSON and debug
  switches off the caller sets up an accounter, while \<^verbatim>\<open>doMirrorFake\<close>, which tests
  the debug switch where \<^verbatim>\<open>doMirror\<close> tests the quiet one, asserts a progress bar: the
  assertion fails.
\<close>

theorem doMirrorFake_quiet_panics:
  "doMirrorFake gQuiet (item1 ''a'') (newProgressReader gQuiet) = ([], Inl TypeAssertionFailed)"
  by (simp add: doMirrorFake_def newProgressReader_def gQuiet_def assert_barSend_def
        andThen_def)

text \<open>A quiet run of a resumed session meets that panic at its first copied item.\<close>

lemma transferLoop_quiet_panics:
  "transferLoop extern0 gQuiet (newProgressReader gQuiet) ''a'' True [''a'', ''b'']
     = ([], Inl TypeAssertionFailed)"
  by (simp add: doMirrorFake_def newProgressReader_def gQuiet_def assert_barSend_def
        andThen_def extern0_def isCopied_def)

text \<open>That combination of the switches is the only one under which the assertion fails.\<close>

lemma doMirrorFake_panics_iff:
  "snd (doMirrorFake g sURLs (newProgressReader g)) = Inl TypeAssertionFailed \<longleftrightarrow>
     globalQuietFlag g \<and> \<not> globalJSONFlag g \<and> \<not> globalDebugFlag g"
  by (auto simp: doMirrorFake_def newProgressReader_def assert_barSend_def andThen_def
           split: option.splits)

section \<open>Properties of the session engine under an interrupt\<close>

lemma prepareLoop_append:
  "prepareLoop ext g st (xs @ ys) =
     andThen (prepareLoop ext g st xs)
       (\<lambda>(st1, e). case e of Waiting \<Rightarrow> prepareLoop ext g st1 ys
                           | Returned \<Rightarrow> ([], Inr (st1, Returned))
                           | Exited \<Rightarrow> ([], Inr (st1, Exited)))"
proof (induction ext g st xs rule: prepareLoop.induct)
  case (1 ext g st)
  then show ?case by simp
next
  case (2 ext g st rest)
  then show ?case by simp
next
  case (3 ext g st rest)
  then show ?case by (simp add: andThen_def split: prod.splits)
next
  case (4 ext g st sURLs rest)
  have "(\<lambda>x. andThen (case x of (st1, e) \<Rightarrow>
                  (case e of Waiting \<Rightarrow> prepareLoop ext g st1 rest
                           | Returned \<Rightarrow> ([], Inr (st1, Returned))
                           | Exited \<Rightarrow> ([], Inr (st1, Exited))))
              (\<lambda>(st1, e). case e of Waiting \<Rightarrow> prepareLoop ext g st1 ys
                                  | Returned \<Rightarrow> ([], Inr (st1, Returned))
                                  | Exited \<Rightarrow> ([], Inr (st1, Exited))))
        = (\<lambda>(st1, e). case e of Waiting \<Rightarrow> prepareLoop ext g st1 (rest @ ys)
                              | Returned \<Rightarrow> ([], Inr (st1, Returned))
                              | Exited \<Rightarrow> ([], Inr (st1, Exited)))"
    by (rule ext) (auto simp: "4.IH" split: prod.splits ending.splits)
  then show ?case by (simp add: andThen_assoc)
qed

lemma statusLoop1_append:
  "statusLoop1 g pr session (xs @ ys) =
     andThen (statusLoop1 g pr session xs)
       (\<lambda>(session1, e). case e of Waiting \<Rightarrow> statusLoop1 g pr session1 ys
                                | Returned \<Rightarrow> ([], Inr (session1, Returned))
                                | Exited \<Rightarrow> ([], Inr (session1, Exited)))"
proof (induction g pr session xs rule: statusLoop1.induct)
  case (1 g pr session)
  then show ?case by simp
next
  case (2 g pr session rest)
  then show ?case
    by (simp add: andThen_def assert_barSend_def assert_accounter_def
          split: prod.splits progressReader.splits)
next
  case (3 g pr session rest)
  then show ?case
    by (simp add: andThen_def after_def gracefulSessionSave_def split: prod.splits)
next
  case (4 g pr session sURLs rest)
  have "(\<lambda>x. andThen (case x of (session1, e) \<Rightarrow>
                  (case e of Waiting \<Rightarrow> statusLoop1 g pr session1 rest
                           | Returned \<Rightarrow> ([], Inr (session1, Returned))
                           | Exited \<Rightarrow> ([], Inr (session1, Exited))))
              (\<lambda>(session1, e). case e of Waiting \<Rightarrow> statusLoop1 g pr session1 ys
                                       | Returned \<Rightarrow> ([], Inr (session1, Returned))
                                       | Exited \<Rightarrow> ([], Inr (session1, Exited))))
        = (\<lambda>(session1, e). case e of Waiting \<Rightarrow> statusLoop1 g pr session1 (rest @ ys)
                                   | Returned \<Rightarrow> ([], Inr (session1, Returned))
                                   | Exited \<Rightarrow> ([], Inr (session1, Exited)))"
    by (rule ext) (auto simp: "4.IH" split: prod.splits ending.splits)
  then show ?case by (simp add: andThen_assoc)
qed

text \<open>
  Without a command argument \<^verbatim>\<open>doPrepareMirrorURLs\<close> panics before its loop starts.
\<close>

lemma prepare_no_arguments:
  "CommandArgs (Header session) = [] \<Longrightarrow>
   doPrepareMirrorURLs ext g session sels = ([], Inl IndexOutOfRange)"
  by (simp add: doPrepareMirrorURLs_def)

text \<open>An interrupt while the scan waits for the next item: the session is deleted.\<close>

lemma prepare_interrupt:
  assumes "CommandArgs (Header session) \<noteq> []"
    and "snd (prepareLoop ext g (session, 0, 0) pre) = Inr ((session1, tb, to), Waiting)"
  shows "snd (doPrepareMirrorURLs ext g session (pre @ Trap # rest)) =
           Inr (session_Delete session1, Exited)"
proof (cases "CommandArgs (Header session)")
  case Nil
  with assms(1) show ?thesis by simp
next
  case (Cons srcURL tgtURLs)
  with assms(2) show ?thesis
    by (simp add: doPrepareMirrorURLs_def prepareLoop_append snd_andThen)
qed

text \<open>An interrupt while the status goroutine waits: the session is saved.\<close>

lemma status_interrupt:
  assumes "snd (statusLoop1 g pr session pre) = Inr (session1, Waiting)"
  shows "snd (statusLoop1 g pr session (pre @ Trap # rest)) = Inr (session_Save session1, Exited)"
  using assms
  by (simp add: statusLoop1_append snd_andThen gracefulSessionSave_def)

lemma doMirrorFake_no_transfer: "transfers (fst (doMirrorFake g sURLs pr)) = []"
  by (simp add: doMirrorFake_def assert_barSend_def andThen_def
        split: progressReader.splits option.splits)

text \<open>
  Up to and including the first item named by the marker, a resumed run starts no
  \<^verbatim>\<open>doMirror\<close> goroutine, whatever the switches and the progress reader.
\<close>

lemma transferLoop_replay:
  assumes "lastCopied \<noteq> []"
    and "\<forall>l \<in> set pre. \<forall>sc. SourceContent1 (json_Unmarshal ext l) = Some sc
           \<longrightarrow> Name sc \<noteq> lastCopied"
  shows "transfers (fst (transferLoop ext g pr lastCopied True (pre @ [m]))) = []"
  using assms(2)
proof (induction pre)
  case Nil
  show ?case
    using assms(1)
    by (auto simp: isCopied_def Let_def doMirrorFake_no_transfer transfers_andThen
             split: option.splits)
next
  case (Cons l pre)
  show ?case
  proof (cases "SourceContent1 (json_Unmarshal ext l)")
    case None
    then show ?thesis by simp
  next
    case (Some sc)
    with Cons.prems have ne: "Name sc \<noteq> lastCopied" by simp
    have ih: "transfers (fst (transferLoop ext g pr lastCopied True (pre @ [m]))) = []"
      using Cons by simp
    show ?thesis
      using assms(1) Some ne ih
      by (simp add: isCopied_def Let_def doMirrorFake_no_transfer transfers_andThen)
  qed
qed

text \<open>
  With the quiet, JSON and debug switches off the progress reader is the bar, and the
  fake mirror of an item is one advance of the bar by the item's size.
\<close>

lemma doMirrorFake_bar:
  assumes "\<not> globalQuietFlag g" and "\<not> globalJSONFlag g" and "\<not> globalDebugFlag g"
    and "SourceContent1 sURLs = Some sc"
  shows "doMirrorFake g sURLs (newProgressReader g) = ([bar_Progress (Size1 sc)], Inr ())"
  using assms
  by (simp add: doMirrorFake_def newProgressReader_def assert_barSend_def)

lemma after_Nil [simp]: "after [] m = m"
  by (simp add: after_def)

lemma after_append: "after (es @ es') m = after es (after es' m)"
  by (simp add: after_def)

lemma andThen_effects: "andThen (es, Inr x) f = after es (f x)"
  by (simp add: andThen_def after_def split: prod.splits)

text \<open>Before the marker: each line is replayed, and the loop goes on as it was.\<close>

lemma transferLoop_before_marker:
  assumes "\<not> globalQuietFlag g" and "\<not> globalJSONFlag g" and "\<not> globalDebugFlag g"
    and "lastCopied \<noteq> []"
    and "\<forall>l \<in> set ls. \<exists>sc. SourceContent1 (json_Unmarshal ext l) = Some sc
           \<and> Name sc \<noteq> lastCopied"
  shows "transferLoop ext g (newProgressReader g) lastCopied True (ls @ ys) =
           after (concat (map (replayed ext) ls))
             (transferLoop ext g (newProgressReader g) lastCopied True ys)"
  using assms(5)
proof (induction ls)
  case Nil
  then show ?case by simp
next
  case (Cons l ls)
  from Cons.prems obtain sc where
    sc: "SourceContent1 (json_Unmarshal ext l) = Some sc" and ne: "Name sc \<noteq> lastCopied"
    by auto
  have ih: "transferLoop ext g (newProgressReader g) lastCopied True (ls @ ys) =
              after (concat (map (replayed ext) ls))
                (transferLoop ext g (newProgressReader g) lastCopied True ys)"
    using Cons by simp
  have fake: "doMirrorFake g (json_Unmarshal ext l) (newProgressReader g) =
                ([bar_Progress (Size1 sc)], Inr ())"
    using assms(1-3) sc by (rule doMirrorFake_bar)
  have "transferLoop ext g (newProgressReader g) lastCopied True ((l # ls) @ ys) =
          after [bar_Progress (Size1 sc)]
            (transferLoop ext g (newProgressReader g) lastCopied True (ls @ ys))"
    using assms(4) sc ne fake by (simp add: isCopied_def Let_def andThen_effects)
  moreover have "replayed ext l = [bar_Progress (Size1 sc)]"
    using sc by (simp add: replayed_def)
  ultimately show ?case
    using ih by (simp add: after_def)
qed

text \<open>The marker itself: the line is replayed, and from then on nothing counts as copied.\<close>

lemma transferLoop_at_marker:
  assumes "\<not> globalQuietFlag g" and "\<not> globalJSONFlag g" and "\<not> globalDebugFlag g"
    and "lastCopied \<noteq> []"
    and "SourceContent1 (json_Unmarshal ext m) = Some sc" and "Name sc = lastCopied"
  shows "transferLoop ext g (newProgressReader g) lastCopied True (m # rest) =
           after (replayed ext m)
             (transferLoop ext g (newProgressReader g) lastCopied False rest)"
proof -
  have "doMirrorFake g (json_Unmarshal ext m) (newProgressReader g) =
          ([bar_Progress (Size1 sc)], Inr ())"
    using assms(1-3) assms(5) by (rule doMirrorFake_bar)
  moreover have "replayed ext m = [bar_Progress (Size1 sc)]"
    using assms(5) by (simp add: replayed_def)
  ultimately show ?thesis
    using assms(4-6) by (simp add: isCopied_def Let_def andThen_effects)
qed

text \<open>After the marker every item takes a slot and gets its \<^verbatim>\<open>doMirror\<close> goroutine.\<close>

lemma transferLoop_after_marker:
  assumes "\<forall>l \<in> set ls. SourceContent1 (json_Unmarshal ext l) \<noteq> None"
  shows "transferLoop ext g pr lastCopied False ls =
           (concat (map (\<lambda>l. [Send_mirrorQueue, Go_doMirror (json_Unmarshal ext l)]) ls),
            Inr False)"
  using assms
  by (induction ls) (auto simp: isCopied_def Let_def after_def split: option.splits)

text \<open>
  The whole resumed run with the bar: fake advances up to and including the marker,
  mirroring from there on.
\<close>

lemma transferLoop_resume:
  assumes "\<not> globalQuietFlag g" and "\<not> globalJSONFlag g" and "\<not> globalDebugFlag g"
    and "lastCopied \<noteq> []"
    and "\<forall>l \<in> set ls. \<exists>sc. SourceContent1 (json_Unmarshal ext l) = Some sc
           \<and> Name sc \<noteq> lastCopied"
    and "SourceContent1 (json_Unmarshal ext m) = Some sc" and "Name sc = lastCopied"
    and "\<forall>l \<in> set later. SourceContent1 (json_Unmarshal ext l) \<noteq> None"
  shows "transferLoop ext g (newProgressReader g) lastCopied True (ls @ m # later) =
           (concat (map (replayed ext) (ls @ [m])) @ concat (map (started ext) later),
            Inr False)"
proof -
  have "(\<lambda>l. [Send_mirrorQueue, Go_doMirror (json_Unmarshal ext l)]) = started ext"
    by (rule ext) (simp add: started_def)
  then have "concat (map (\<lambda>l. [Send_mirrorQueue, Go_doMirror (json_Unmarshal ext l)]) later)
          = concat (map (started ext) later)"
    by simp
  then show ?thesis
    using transferLoop_before_marker [OF assms(1-5), of "m # later"]
          transferLoop_at_marker [OF assms(1-4) assms(6,7), of later]
          transferLoop_after_marker [OF assms(8), of g "newProgressReader g" lastCopied]
    by (simp add: after_def)
qed

text \<open>
  C5, as the claim states it, fails: an interrupt that arrives while the source is still
  being scanned does not persist the session. The session stored before is deleted, and
  the process exits with nothing to resume from.
\<close>

theorem prepare_interrupt_deletes_session_counterexample:
  "doPrepareMirrorURLs extern0 gBar sessionNew [Recv (item1 ''a''), Trap] =
     ([updateBar ''a'', console_Eraseline, os_Exit],
      Inr (sessionNew\<lparr>sessionFile := None, dataFile := []\<rparr>, Exited))"
  by (simp add: doPrepareMirrorURLs_def prepareReceive_def andThen_def extern0_def gBar_def
        item1_def sessionNew_def session_Delete_def)

text \<open>
  C5, amended. An interrupt that the status goroutine of \<^verbatim>\<open>doMirrorSession\<close> receives
  while it waits, that is once the scan is over and the transfer is under way, persists
  the session as it then is (last-copied marker and totals) and exits. An interrupt
  that arrives while \<^verbatim>\<open>doPrepareMirrorURLs\<close>, started with its command arguments, waits
  for the next scanned item deletes the session and exits. When a persisted session is
  run again, no entry up to and including the first one named by the marker is handed
  to a \<^verbatim>\<open>doMirror\<close> goroutine, whatever the switches. With the quiet, JSON and debug
  switches off the run is exactly this: each entry up to and including the marker is
  replayed as one fake advance of the progress bar by its size, and each later entry
  takes a slot of the queue and gets its \<^verbatim>\<open>doMirror\<close> goroutine.
\<close>

theorem interrupt_saves_or_drops_session:
  assumes "snd (statusLoop1 g pr session pre) = Inr (session1, Waiting)"
    and "CommandArgs (Header session') \<noteq> []"
    and "snd (prepareLoop ext g (session', 0, 0) pre') = Inr ((session1', tb, to), Waiting)"
    and "lastCopied \<noteq> []"
    and "\<forall>l \<in> set ls. \<exists>sc. SourceContent1 (json_Unmarshal ext l) = Some sc
           \<and> Name sc \<noteq> lastCopied"
    and "SourceContent1 (json_Unmarshal ext m) = Some sc" and "Name sc = lastCopied"
    and "\<forall>l \<in> set later. SourceContent1 (json_Unmarshal ext l) \<noteq> None"
  shows "snd (statusLoop1 g pr session (pre @ Trap # rest))
           = Inr (session1\<lparr>sessionFile := Some (Header session1)\<rparr>, Exited)
       \<and> snd (doPrepareMirrorURLs ext g session' (pre' @ Trap # rest'))
           = Inr (session1'\<lparr>sessionFile := None, dataFile := []\<rparr>, Exited)
       \<and> transfers (fst (transferLoop ext g pr lastCopied True (ls @ [m]))) = []
       \<and> (\<not> globalQuietFlag g \<and> \<not> globalJSONFlag g \<and> \<not> globalDebugFlag g \<longrightarrow>
            transferLoop ext g (newProgressReader g) lastCopied True (ls @ m # later)
              = (concat (map (replayed ext) (ls @ [m])) @ concat (map (started ext) later),
                 Inr False))"
proof -
  have before: "\<forall>l \<in> set ls. \<forall>sc. SourceContent1 (json_Unmarshal ext l) = Some sc
                  \<longrightarrow> Name sc \<noteq> lastCopied"
    using assms(5) by auto
  show ?thesis
    using status_interrupt [OF assms(1), of rest]
          prepare_interrupt [OF assms(2) assms(3), of rest']
          transferLoop_replay [OF assms(4) before, of g pr m]
          transferLoop_resume [OF _ _ _ assms(4) assms(5) assms(6) assms(7) assms(8), of g]
    by (simp add: session_Save_def session_Delete_def)
qed

theorem interrupt_saves_or_drops_session_witness:
  "snd (statusLoop1 gBar barSend session0 [Recv (item1 ''b'')])
     = Inr (session0\<lparr>Header := (Header session0)\<lparr>LastCopied := ''b''\<rparr>,
                     sessionFile := Some ((Header session0)\<lparr>LastCopied := ''b''\<rparr>)\<rparr>,
            Waiting)
   \<and> CommandArgs (Header sessionNew) \<noteq> []
   \<and> snd (prepareLoop extern0 gBar (sessionNew, 0, 0) [Recv (item1 ''a'')])
       = Inr ((sessionNew\<lparr>dataFile := [''a'']\<rparr>, 10, 1), Waiting)
   \<and> snd (statusLoop1 gBar barSend session0 ([Recv (item1 ''b'')] @ Trap # []))
       = Inr (session0\<lparr>Header := (Header session0)\<lparr>LastCopied := ''b''\<rparr>,
                       sessionFile := Some ((Header session0)\<lparr>LastCopied := ''b''\<rparr>)\<rparr>,
              Exited)
   \<and> snd (doPrepareMirrorURLs extern0 gBar sessionNew ([Recv (item1 ''a'')] @ Trap # []))
       = Inr (sessionNew\<lparr>sessionFile := None, dataFile := []\<rparr>, Exited)
   \<and> transfers (fst (transferLoop extern0 gBar barSend ''b'' True ([''a''] @ [''b'']))) = []
   \<and> transferLoop extern0 gBar (newProgressReader gBar) ''b'' True ([''a''] @ ''b'' # [''c''])
       = ([bar_Progress 0, bar_Progress 0, Send_mirrorQueue,
           Go_doMirror (json_Unmarshal extern0 ''c'')], Inr False)"
proof -
  have h1: "snd (statusLoop1 gBar barSend session0 [Recv (item1 ''b'')])
     = Inr (session0\<lparr>Header := (Header session0)\<lparr>LastCopied := ''b''\<rparr>,
                     sessionFile := Some ((Header session0)\<lparr>LastCopied := ''b''\<rparr>)\<rparr>,
            Waiting)"
    by (simp add: statusReceive1_def item1_def session_Save_def Let_def)
  have h2: "CommandArgs (Header sessionNew) \<noteq> []"
    by (simp add: sessionNew_def)
  have h3: "snd (prepareLoop extern0 gBar (sessionNew, 0, 0) [Recv (item1 ''a'')])
       = Inr ((sessionNew\<lparr>dataFile := [''a'']\<rparr>, 10, 1), Waiting)"
    by (simp add: prepareReceive_def item1_def extern0_def gBar_def sessionNew_def andThen_def)
  have h4: "''b'' \<noteq> []"
    by simp
  have h5: "\<forall>l \<in> set [''a'']. \<exists>sc. SourceContent1 (json_Unmarshal extern0 l) = Some sc
              \<and> Name sc \<noteq> ''b''"
    by (simp add: extern0_def)
  have h6: "SourceContent1 (json_Unmarshal extern0 ''b'') = Some \<lparr>Name = ''b'', Size1 = 0\<rparr>"
    by (simp add: extern0_def)
  have h7: "Name \<lparr>Name = ''b'', Size1 = 0\<rparr> = ''b''"
    by simp
  have h8: "\<forall>l \<in> set [''c'']. SourceContent1 (json_Unmarshal extern0 l) \<noteq> None"
    by (simp add: extern0_def)
  have flags: "\<not> globalQuietFlag gBar \<and> \<not> globalJSONFlag gBar \<and> \<not> globalDebugFlag gBar"
    by (simp add: gBar_def)
  have shown: "concat (map (replayed extern0) ([''a''] @ [''b''])) @
                 concat (map (started extern0) [''c''])
               = [bar_Progress 0, bar_Progress 0, Send_mirrorQueue,
                  Go_doMirror (json_Unmarshal extern0 ''c'')]"
    by (simp add: replayed_def started_def extern0_def)
  show ?thesis
    using h1 h2 h3 flags shown
      interrupt_saves_or_drops_session [OF h1 h2 h3 h4 h5 h6 h7 h8, of "[]" "[]"]
    by simp
qed

section \<open>The slot of the mirror queue\<close>

text \<open>
  Whatever the item, the switches and the answers of the outside world, and whether the
  body returns or panics, \<^verbatim>\<open>doMirror\<close> of the session engine gives its slot back
  exactly once, after everything else it does, and then tells the wait group.
\<close>

lemma doMirror1_body_keeps_slot:
  "Recv_mirrorQueueCh \<notin> set (fst (doMirror1_body ext g sURLs pr))"
  by (auto simp: doMirror1_body_def Let_def andThen_def after_def assert_barSend_def
        assert_accounter_def
        split: option.splits prod.splits sum.splits progressReader.splits if_splits)

lemma doMirror1_gives_slot_back:
  "\<exists>body. fst (doMirror1 ext g sURLs pr) = body @ [Recv_mirrorQueueCh, wg_Done]
          \<and> Recv_mirrorQueueCh \<notin> set body"
  using doMirror1_body_keeps_slot [of ext g sURLs pr]
  by (simp add: doMirror1_def Let_def)

end
